theory Spec2Isabelle
  imports Main
begin

chapter \<open>The notebook\<close>

section \<open>Python values, exceptions and tensors\<close>

text \<open>
  The notebook \<^verbatim>\<open>2_Intro_Train.ipynb\<close> is glue code over torch, torchvision,
  torchmetrics and ray.train. Its own functions are embedded below under their own
  names. Every raise of the Python code is a value \<open>Inl e\<close> of the sum type
  \<open>exn + 'a\<close>; there is no handler anywhere in the notebook, so an \<open>Inl\<close> is only
  ever passed on.
\<close>

datatype exn =
    UnboundLocalError | ValueError | KeyError | ZeroDivisionError | AttributeError
  | RuntimeError | UnpicklingError | EOFError
  | FileExistsError | FileNotFoundError | NotADirectoryError | IsADirectoryError
  | LibraryError string

definition and_then :: "exn + 'a \<Rightarrow> ('a \<Rightarrow> exn + 'b) \<Rightarrow> exn + 'b" where
  "and_then m f = (case m of Inl e \<Rightarrow> Inl e | Inr x \<Rightarrow> f x)"

text \<open>
  A metrics dict holds Python floats (\<open>tensor.item()\<close>, of an abstract type \<open>'v\<close>) and the
  integer epoch. A dict keeps insertion order, which \<open>metrics.values()\<close> relies on, so
  it is an association list.
\<close>

datatype 'v pyval = PyFloat 'v | PyInt int

type_synonym 'v metrics = "(string \<times> 'v pyval) list"

definition dict_values :: "'v metrics \<Rightarrow> 'v pyval list" where
  "dict_values metrics = map snd metrics"

text \<open>A parameter or buffer of a module: its shape and its contents (of an abstract type).\<close>

record 't tensor =
  shape :: "nat list"
  data :: 't

type_synonym 't state_dict = "(string \<times> 't tensor) list"

section \<open>The file system and the observable actions\<close>

text \<open>
  A file is a sequence of written chunks: a csv row or a pickled state dict. A run
  directory is named by \<open>local_path\<close> as written, and holds entries by name;
  \<open>os.path.join local_path name\<close> is kept as the pair of the two. Two spellings of one
  directory count as two directories.
\<close>

datatype ('v, 't) chunk = Row "'v pyval list" | Pickle "'t state_dict"

datatype ('v, 't) entry = SubDir | RegFile "('v, 't) chunk list"

datatype ('v, 't) dir_state =
    Absent
  | NotDir
  | Directory "string \<Rightarrow> ('v, 't) entry option"

fun is_directory :: "('v, 't) dir_state \<Rightarrow> bool" where
  "is_directory (Directory es) = True"
| "is_directory _ = False"

type_synonym path = "string \<times> string"

definition os_path_join :: "string \<Rightarrow> string \<Rightarrow> path" where
  "os_path_join local_path name = (local_path, name)"

text \<open>
  A temporary directory (\<^verbatim>\<open>tempfile.TemporaryDirectory()\<close>) is new, empty and the
  worker's own, and is removed when its \<^verbatim>\<open>with\<close> block is left. It is none of the
  named directories of the world; it is a local value, the files in it by name. A
  \<^verbatim>\<open>ray.train.Checkpoint\<close> is made from such a directory and holds its files.
\<close>

type_synonym 't temp_dir = "(string \<times> 't state_dict) list"

datatype 't checkpoint = Checkpoint "'t temp_dir"

text \<open>
  The actions whose order matters are logged, in program order, in the \<open>trace\<close> of
  the world, next to the file system they act on. \<open>EvTorchSaveTemp name sd\<close> is a
  \<^verbatim>\<open>torch.save\<close> of \<open>sd\<close> into the file \<open>name\<close> of a temporary directory.
\<close>

datatype ('v, 't) event =
    EvPrint "'v metrics"
  | EvReset
  | EvMkdir string
  | EvWriteRow path "'v pyval list"
  | EvTorchSave path "'t state_dict"
  | EvTorchSaveTemp string "'t state_dict"
  | EvReport "'v metrics" "'t checkpoint option"

record ('v, 't) world =
  files :: "string \<Rightarrow> ('v, 't) dir_state"
  trace :: "('v, 't) event list"

definition log_event :: "('v, 't) event \<Rightarrow> ('v, 't) world \<Rightarrow> ('v, 't) world" where
  "log_event ev w = w\<lparr>trace := trace w @ [ev]\<rparr>"

text \<open>\<^verbatim>\<open>Path(local_path).mkdir(parents=True, exist_ok=True)\<close>\<close>

definition mkdir :: "string \<Rightarrow> ('v, 't) world \<Rightarrow> exn + ('v, 't) world" where
  "mkdir local_path w =
     (case files w local_path of
        Absent \<Rightarrow>
          Inr (log_event (EvMkdir local_path)
                (w\<lparr>files := (files w)(local_path := Directory (\<lambda>_. None))\<rparr>))
      | NotDir \<Rightarrow> Inl FileExistsError
      | Directory es \<Rightarrow> Inr (log_event (EvMkdir local_path) w))"

text \<open>
  Writing into the entry \<open>name\<close> of a directory: the directory must exist and the entry
  must not be a directory; \<open>change\<close> maps the old contents (\<open>[]\<close> for a new file) to the
  new ones.
\<close>

definition write_file ::
  "path \<Rightarrow> (('v, 't) chunk list \<Rightarrow> ('v, 't) chunk list) \<Rightarrow> ('v, 't) world \<Rightarrow> exn + ('v, 't) world"
where
  "write_file p change w =
     (case files w (fst p) of
        Absent \<Rightarrow> Inl FileNotFoundError
      | NotDir \<Rightarrow> Inl NotADirectoryError
      | Directory es \<Rightarrow>
          (case es (snd p) of
             Some SubDir \<Rightarrow> Inl IsADirectoryError
           | Some (RegFile old) \<Rightarrow>
               Inr (w\<lparr>files := (files w)(fst p := Directory (es(snd p \<mapsto> RegFile (change old))))\<rparr>)
           | None \<Rightarrow>
               Inr (w\<lparr>files := (files w)(fst p := Directory (es(snd p \<mapsto> RegFile (change []))))\<rparr>)))"

text \<open>\<^verbatim>\<open>with open(p, "a") as f: csv.writer(f).writerow(row)\<close>\<close>

definition csv_append :: "path \<Rightarrow> 'v pyval list \<Rightarrow> ('v, 't) world \<Rightarrow> exn + ('v, 't) world" where
  "csv_append p row w =
     and_then (write_file p (\<lambda>old. old @ [Row row]) w) (\<lambda>w'. Inr (log_event (EvWriteRow p row) w'))"

text \<open>
  \<^verbatim>\<open>torch.save(sd, p)\<close> opens \<open>p\<close> for writing, which truncates it; its file writer
  reports a file that it cannot open as a \<^verbatim>\<open>RuntimeError\<close>.
\<close>

definition torch_save :: "'t state_dict \<Rightarrow> path \<Rightarrow> ('v, 't) world \<Rightarrow> exn + ('v, 't) world" where
  "torch_save sd p w =
     (case write_file p (\<lambda>old. [Pickle sd]) w of
        Inl e \<Rightarrow> Inl RuntimeError
      | Inr w' \<Rightarrow> Inr (log_event (EvTorchSave p sd) w'))"

definition read_file :: "path \<Rightarrow> ('v, 't) world \<Rightarrow> exn + ('v, 't) chunk list" where
  "read_file p w =
     (case files w (fst p) of
        Absent \<Rightarrow> Inl FileNotFoundError
      | NotDir \<Rightarrow> Inl NotADirectoryError
      | Directory es \<Rightarrow>
          (case es (snd p) of
             None \<Rightarrow> Inl FileNotFoundError
           | Some SubDir \<Rightarrow> Inl IsADirectoryError
           | Some (RegFile cs) \<Rightarrow> Inr cs))"

text \<open>
  \<^verbatim>\<open>torch.load(p, weights_only=True)\<close>: the file must hold one pickled object. An
  empty file ends before any object (\<^verbatim>\<open>EOFError\<close>); anything else is not a pickle.
\<close>

definition torch_load :: "path \<Rightarrow> ('v, 't) world \<Rightarrow> exn + 't state_dict" where
  "torch_load p w =
     and_then (read_file p w)
       (\<lambda>cs. case cs of
               [] \<Rightarrow> Inl EOFError
             | [Pickle sd] \<Rightarrow> Inr sd
             | _ \<Rightarrow> Inl UnpicklingError)"

text \<open>What a reader of the run directory sees: the chunks of an entry, none if it is missing.\<close>

definition file_chunks :: "('v, 't) world \<Rightarrow> path \<Rightarrow> ('v, 't) chunk list" where
  "file_chunks w p = (case read_file p w of Inl e \<Rightarrow> [] | Inr cs \<Rightarrow> cs)"

definition metrics_rows :: "('v, 't) world \<Rightarrow> string \<Rightarrow> ('v, 't) chunk list" where
  "metrics_rows w local_path = file_chunks w (os_path_join local_path ''metrics.csv'')"

definition model_file :: "('v, 't) world \<Rightarrow> string \<Rightarrow> ('v, 't) chunk list" where
  "model_file w local_path = file_chunks w (os_path_join local_path ''model.pt'')"

section \<open>Modules\<close>

record 't conv2d =
  in_channels :: nat
  out_channels :: nat
  kernel_size :: "nat \<times> nat"
  stride :: "nat \<times> nat"
  padding :: "nat \<times> nat"
  weight :: "'t tensor"
  bias :: "'t tensor option"

record 't linear =
  in_features :: nat
  out_features :: nat
  lin_weight :: "'t tensor"
  lin_bias :: "'t tensor"

text \<open>
  A ResNet as far as the notebook touches it: the first convolution, the final fully
  connected layer, and the parameters and buffers of everything in between (\<open>body\<close>).
\<close>

record 't resnet =
  conv1 :: "'t conv2d"
  body :: "'t state_dict"
  fc :: "'t linear"
  device :: string
  training :: bool

definition Conv2d ::
  "(nat list \<Rightarrow> 't) \<Rightarrow> nat \<Rightarrow> nat \<Rightarrow> nat \<times> nat \<Rightarrow> nat \<times> nat \<Rightarrow> nat \<times> nat \<Rightarrow> bool \<Rightarrow> 't conv2d"
where
  "Conv2d fresh ic oc ks st pd b =
     \<lparr>in_channels = ic, out_channels = oc, kernel_size = ks, stride = st, padding = pd,
      weight = \<lparr>shape = [oc, ic, fst ks, snd ks], data = fresh [oc, ic, fst ks, snd ks]\<rparr>,
      bias = (if b then Some \<lparr>shape = [oc], data = fresh [oc]\<rparr> else None)\<rparr>"

definition Linear :: "(nat list \<Rightarrow> 't) \<Rightarrow> nat \<Rightarrow> nat \<Rightarrow> 't linear" where
  "Linear fresh n_in n_out =
     \<lparr>in_features = n_in, out_features = n_out,
      lin_weight = \<lparr>shape = [n_out, n_in], data = fresh [n_out, n_in]\<rparr>,
      lin_bias = \<lparr>shape = [n_out], data = fresh [n_out]\<rparr>\<rparr>"

definition conv2d_state :: "string \<Rightarrow> 't conv2d \<Rightarrow> 't state_dict" where
  "conv2d_state name c =
     (name @ ''.weight'', weight c) #
     (case bias c of None \<Rightarrow> [] | Some b \<Rightarrow> [(name @ ''.bias'', b)])"

definition linear_state :: "string \<Rightarrow> 't linear \<Rightarrow> 't state_dict" where
  "linear_state name l = [(name @ ''.weight'', lin_weight l), (name @ ''.bias'', lin_bias l)]"

text \<open>\<^verbatim>\<open>model.state_dict()\<close>: the named tensors, in registration order.\<close>

definition state_dict :: "'t resnet \<Rightarrow> 't state_dict" where
  "state_dict m = conv2d_state ''conv1'' (conv1 m) @ body m @ linear_state ''fc'' (fc m)"

text \<open>
  \<^verbatim>\<open>model.load_state_dict(sd)\<close> (strict): a missing key, an unexpected key or a tensor
  of another shape raises; otherwise the contents of every tensor are copied in.
\<close>

definition copy_from :: "'t state_dict \<Rightarrow> string \<Rightarrow> 't tensor \<Rightarrow> 't tensor" where
  "copy_from sd name t = (case map_of sd name of None \<Rightarrow> t | Some t' \<Rightarrow> t\<lparr>data := data t'\<rparr>)"

definition load_state_dict :: "'t resnet \<Rightarrow> 't state_dict \<Rightarrow> exn + 't resnet" where
  "load_state_dict m sd =
     (let own = state_dict m;
          missing = filter (\<lambda>k. k \<notin> set (map fst sd)) (map fst own);
          unexpected = filter (\<lambda>k. k \<notin> set (map fst own)) (map fst sd);
          mismatched =
            filter (\<lambda>(k, t). case map_of sd k of None \<Rightarrow> False | Some t' \<Rightarrow> shape t' \<noteq> shape t) own
      in if missing \<noteq> [] \<or> unexpected \<noteq> [] \<or> mismatched \<noteq> [] then Inl RuntimeError
         else Inr (m\<lparr>conv1 := (conv1 m)
                       \<lparr>weight := copy_from sd ''conv1.weight'' (weight (conv1 m)),
                        bias := map_option (copy_from sd ''conv1.bias'') (bias (conv1 m))\<rparr>,
                     body := map (\<lambda>(k, t). (k, copy_from sd k t)) (body m),
                     fc := (fc m)
                       \<lparr>lin_weight := copy_from sd ''fc.weight'' (lin_weight (fc m)),
                        lin_bias := copy_from sd ''fc.bias'' (lin_bias (fc m))\<rparr>\<rparr>))"

text \<open>
  What \<^verbatim>\<open>ray.train.torch.prepare_model\<close> hands back: the module wrapped in
  \<^verbatim>\<open>DistributedDataParallel\<close>, or the module itself. Only the wrapper has the
  attributes \<^verbatim>\<open>.module\<close> and \<^verbatim>\<open>.device\<close>.
\<close>

datatype 't prepared = DistributedDataParallel "'t resnet" | NotWrapped "'t resnet"

fun inner :: "'t prepared \<Rightarrow> 't resnet" where
  "inner (DistributedDataParallel m) = m"
| "inner (NotWrapped m) = m"

fun with_inner :: "'t prepared \<Rightarrow> 't resnet \<Rightarrow> 't prepared" where
  "with_inner (DistributedDataParallel _) m = DistributedDataParallel m"
| "with_inner (NotWrapped _) m = NotWrapped m"

fun module_attr :: "'t prepared \<Rightarrow> exn + 't resnet" where
  "module_attr (DistributedDataParallel m) = Inr m"
| "module_attr (NotWrapped m) = Inl AttributeError"

fun device_attr :: "'t prepared \<Rightarrow> exn + string" where
  "device_attr (DistributedDataParallel m) = Inr (device m)"
| "device_attr (NotWrapped m) = Inl AttributeError"

section \<open>Data loaders\<close>

record ('x, 'y) data_loader =
  dataset :: "('x \<times> 'y) list"
  batch_size :: nat
  shuffle :: bool
  drop_last :: bool

text \<open>
  \<^verbatim>\<open>DataLoader(ds, batch_size=bs, shuffle=sh, drop_last=dl)\<close> first builds its sampler,
  and with \<^verbatim>\<open>shuffle=True\<close> the random sampler refuses an empty dataset; then its
  batch sampler refuses a batch size that is not positive.
\<close>

definition DataLoader ::
  "('x \<times> 'y) list \<Rightarrow> int \<Rightarrow> bool \<Rightarrow> bool \<Rightarrow> exn + ('x, 'y) data_loader"
where
  "DataLoader ds bs sh dl =
     (if sh \<and> ds = [] then Inl ValueError
      else if bs \<le> 0 then Inl ValueError
      else Inr \<lparr>dataset = ds, batch_size = nat bs, shuffle = sh, drop_last = dl\<rparr>)"

text \<open>
  The batch sampler cuts the sampled indices into runs of \<open>bs\<close>; what is left over at
  the end is a short batch, or nothing with \<open>drop_last\<close>. (\<open>bs = 0\<close> cannot come out of
  \<open>DataLoader\<close>.)
\<close>

function batch_sampler :: "nat \<Rightarrow> bool \<Rightarrow> 'i list \<Rightarrow> 'i list list" where
  "batch_sampler bs dl xs =
     (if bs = 0 then []
      else if length xs < bs then (if dl \<or> xs = [] then [] else [xs])
      else take bs xs # batch_sampler bs dl (drop bs xs))"
  by pat_completeness auto
termination
  by (relation "measure (\<lambda>(bs, dl, xs). length xs)") auto

declare batch_sampler.simps [simp del]

text \<open>
  One pass over a loader. With \<open>shuffle\<close> the indices come in a random order: they are
  sorted by the keys \<open>keys k\<close> that the generator gives for the \<open>k\<close>-th pass, which is
  a permutation whatever the keys are.
\<close>

definition sampler :: "(nat \<Rightarrow> nat \<Rightarrow> nat) \<Rightarrow> ('x, 'y) data_loader \<Rightarrow> nat \<Rightarrow> nat list" where
  "sampler keys dl k =
     (if shuffle dl then sort_key (keys k) [0..<length (dataset dl)]
      else [0..<length (dataset dl)])"

definition iter_batches ::
  "(nat \<Rightarrow> nat \<Rightarrow> nat) \<Rightarrow> ('x, 'y) data_loader \<Rightarrow> nat \<Rightarrow> ('x \<times> 'y) list list"
where
  "iter_batches keys dl k =
     map (map (\<lambda>i. dataset dl ! i)) (batch_sampler (batch_size dl) (drop_last dl) (sampler keys dl k))"

text \<open>
  The loader that \<^verbatim>\<open>ray.train.torch.prepare_data_loader\<close> returns: the batches of this
  worker's shard for each epoch, and the epoch its sampler is set to.
\<close>

record ('x, 'y) sharded_loader =
  shard_batches :: "nat \<Rightarrow> ('x \<times> 'y) list list"
  sampler_epoch :: nat

definition set_epoch :: "nat \<Rightarrow> ('x, 'y) sharded_loader \<Rightarrow> ('x, 'y) sharded_loader" where
  "set_epoch epoch sl = sl\<lparr>sampler_epoch := epoch\<rparr>"

definition iter_sharded :: "('x, 'y) sharded_loader \<Rightarrow> ('x \<times> 'y) list list" where
  "iter_sharded sl = shard_batches sl (sampler_epoch sl)"

section \<open>The libraries\<close>

text \<open>
  What the notebook calls in torch, torchvision, torchmetrics and ray.train is a
  parameter: \<open>'x\<close> and \<open>'y\<close> are an image and a label, \<open>'t\<close> a tensor, \<open>'v\<close> a Python
  float, \<open>'o\<close> the optimizer, \<open>'a\<close> the accuracy metric. A call that can raise returns
  \<open>exn + _\<close>; a call that mutates an object returns the object.
\<close>

record ('x, 'y, 't, 'v, 'o, 'a) lib =
  resnet18_body :: "'t state_dict"
    \<comment> \<open>the parameters and buffers of \<^verbatim>\<open>resnet18\<close> between \<^verbatim>\<open>conv1\<close> and \<^verbatim>\<open>fc\<close>\<close>
  fresh_data :: "nat list \<Rightarrow> 't"
    \<comment> \<open>the initial contents of a new parameter of a given shape\<close>
  to_cuda :: "'t resnet \<Rightarrow> exn + 't resnet"
    \<comment> \<open>\<^verbatim>\<open>model.to("cuda")\<close>\<close>
  MNIST :: "exn + ('x \<times> 'y) list"
    \<comment> \<open>\<^verbatim>\<open>MNIST(root="./data", train=True, download=True, transform=transform)\<close>\<close>
  shuffle_keys :: "nat \<Rightarrow> nat \<Rightarrow> nat"
    \<comment> \<open>the random generator behind \<^verbatim>\<open>shuffle=True\<close>\<close>
  batch_to_cuda :: "'x list \<times> 'y list \<Rightarrow> exn + 'x list \<times> 'y list"
    \<comment> \<open>\<^verbatim>\<open>images.to("cuda"), labels.to("cuda")\<close>\<close>
  forward :: "'t resnet \<Rightarrow> 'x list \<Rightarrow> exn + 't \<times> 't resnet"
    \<comment> \<open>\<^verbatim>\<open>model(images)\<close>; in training mode it updates the buffers of the model\<close>
  CrossEntropyLoss :: "'t \<Rightarrow> 'y list \<Rightarrow> exn + 't"
    \<comment> \<open>\<^verbatim>\<open>criterion(outputs, labels)\<close>\<close>
  Adam :: "'t resnet \<Rightarrow> exn + 'o"
    \<comment> \<open>\<^verbatim>\<open>Adam(model.parameters(), lr=1e-5)\<close>\<close>
  zero_grad :: "'o \<Rightarrow> 't resnet \<Rightarrow> 't resnet"
    \<comment> \<open>\<^verbatim>\<open>optimizer.zero_grad()\<close>, on the parameters of the model\<close>
  backward :: "'t \<Rightarrow> 't resnet \<Rightarrow> exn + 't resnet"
    \<comment> \<open>\<^verbatim>\<open>loss.backward()\<close>, on the parameters of the model\<close>
  step :: "'o \<Rightarrow> 't resnet \<Rightarrow> exn + 'o \<times> 't resnet"
    \<comment> \<open>\<^verbatim>\<open>optimizer.step()\<close>\<close>
  item :: "'t \<Rightarrow> 'v"
    \<comment> \<open>\<^verbatim>\<open>tensor.item()\<close>\<close>
  Accuracy :: "exn + 'a"
    \<comment> \<open>\<^verbatim>\<open>torchmetrics.Accuracy(task="multiclass", num_classes=10)\<close>\<close>
  metric_to :: "'a \<Rightarrow> string \<Rightarrow> exn + 'a"
    \<comment> \<open>\<^verbatim>\<open>.to(device)\<close> of a metric\<close>
  metric_update :: "'a \<Rightarrow> 't \<Rightarrow> 'y list \<Rightarrow> exn + 'a"
    \<comment> \<open>\<^verbatim>\<open>acc(outputs, labels)\<close>\<close>
  metric_compute :: "'a \<Rightarrow> exn + 't"
    \<comment> \<open>\<^verbatim>\<open>acc.compute()\<close>\<close>
  metric_reset :: "'a \<Rightarrow> 'a"
    \<comment> \<open>\<^verbatim>\<open>acc.reset()\<close>\<close>
  prepare_model :: "'t resnet \<Rightarrow> exn + 't prepared"
    \<comment> \<open>\<^verbatim>\<open>ray.train.torch.prepare_model(model)\<close>\<close>
  prepare_data_loader :: "('x, 'y) data_loader \<Rightarrow> exn + ('x, 'y) sharded_loader"
    \<comment> \<open>\<^verbatim>\<open>ray.train.torch.prepare_data_loader(train_loader)\<close>\<close>

text \<open>\<^verbatim>\<open>torchvision.models.resnet18(num_classes=n)\<close>\<close>

definition resnet18 :: "('x, 'y, 't, 'v, 'o, 'a) lib \<Rightarrow> nat \<Rightarrow> 't resnet" where
  "resnet18 L num_classes =
     \<lparr>conv1 = Conv2d (fresh_data L) 3 64 (7, 7) (2, 2) (3, 3) False,
      body = resnet18_body L,
      fc = Linear (fresh_data L) 512 num_classes,
      device = ''cpu'',
      training = True\<rparr>"

text \<open>The local variables of a training loop; \<open>loss\<close> is unbound until a batch has run.\<close>

record ('m, 't, 'o, 'a) train_state =
  model :: 'm
  optimizer :: 'o
  acc :: 'a
  loss :: "'t option"

section \<open>Part 1 of the notebook: single GPU\<close>

definition build_resnet18 :: "('x, 'y, 't, 'v, 'o, 'a) lib \<Rightarrow> 't resnet" where
  "build_resnet18 L =
     (let model = resnet18 L 10
      in model\<lparr>conv1 := Conv2d (fresh_data L) 1 64 (7, 7) (2, 2) (3, 3) False\<rparr>)"

definition load_model_torch :: "('x, 'y, 't, 'v, 'o, 'a) lib \<Rightarrow> exn + 't resnet" where
  "load_model_torch L = (let model = build_resnet18 L in to_cuda L model)"

definition data_loader_torch ::
  "('x, 'y, 't, 'v, 'o, 'a) lib \<Rightarrow> int \<Rightarrow> exn + ('x, 'y) data_loader"
where
  "data_loader_torch L bsz =
     and_then (MNIST L) (\<lambda>train_data. DataLoader train_data bsz True True)"

definition report_metrics_torch ::
  "('x, 'y, 't, 'v, 'o, 'a) lib \<Rightarrow> 't \<Rightarrow> 't \<Rightarrow> int \<Rightarrow> ('v, 't) world \<Rightarrow> 'v metrics \<times> ('v, 't) world"
where
  "report_metrics_torch L loss_t accuracy epoch w =
     (let metrics = [(''loss'', PyFloat (item L loss_t)), (''epoch'', PyInt epoch),
                     (''accuracy'', PyFloat (item L accuracy))]
      in (metrics, log_event (EvPrint metrics) w))"

definition save_checkpoint_and_metrics_torch ::
  "'v metrics \<Rightarrow> 't resnet \<Rightarrow> string \<Rightarrow> ('v, 't) world \<Rightarrow> (exn + unit) \<times> ('v, 't) world"
where
  "save_checkpoint_and_metrics_torch metrics m local_path w =
     (case csv_append (os_path_join local_path ''metrics.csv'') (dict_values metrics) w of
        Inl e \<Rightarrow> (Inl e, w)
      | Inr w1 \<Rightarrow>
          (let checkpoint_path = os_path_join local_path ''model.pt''
           in case torch_save (state_dict m) checkpoint_path w1 of
                Inl e \<Rightarrow> (Inl e, w1)
              | Inr w2 \<Rightarrow> (Inr (), w2)))"

text \<open>\<^verbatim>\<open>range(n)\<close>\<close>

definition py_range :: "int \<Rightarrow> nat list" where
  "py_range n = [0..<nat n]"

text \<open>The statements of \<open>train_loop_torch\<close> before its loops (lines 188 to 196).\<close>

definition train_loop_torch_setup ::
  "('x, 'y, 't, 'v, 'o, 'a) lib \<Rightarrow> int \<Rightarrow>
     exn + ('t resnet, 't, 'o, 'a) train_state \<times> ('x, 'y) data_loader"
where
  "train_loop_torch_setup L bsz =
     and_then (load_model_torch L) (\<lambda>m.
     and_then (Adam L m) (\<lambda>opt.
     and_then (Accuracy L) (\<lambda>a0.
     and_then (metric_to L a0 ''cuda'') (\<lambda>a.
     and_then (data_loader_torch L bsz) (\<lambda>dl.
     Inr (\<lparr>model = m, optimizer = opt, acc = a, loss = None\<rparr>, dl))))))"

text \<open>The body of the inner loop, for one batch (lines 201 to 216).\<close>

definition train_loop_torch_batch ::
  "('x, 'y, 't, 'v, 'o, 'a) lib \<Rightarrow> ('t resnet, 't, 'o, 'a) train_state \<Rightarrow> ('x \<times> 'y) list \<Rightarrow>
     exn + ('t resnet, 't, 'o, 'a) train_state"
where
  "train_loop_torch_batch L st batch =
     and_then (batch_to_cuda L (map fst batch, map snd batch)) (\<lambda>(images, labels).
     and_then (forward L (model st) images) (\<lambda>(outputs, m1).
     and_then (CrossEntropyLoss L outputs labels) (\<lambda>l.
     and_then (backward L l (zero_grad L (optimizer st) m1)) (\<lambda>m2.
     and_then (step L (optimizer st) m2) (\<lambda>(opt, m3).
     and_then (metric_update L (acc st) outputs labels) (\<lambda>a.
     Inr \<lparr>model = m3, optimizer = opt, acc = a, loss = Some l\<rparr>))))))"

fun train_loop_torch_batches ::
  "('x, 'y, 't, 'v, 'o, 'a) lib \<Rightarrow> ('t resnet, 't, 'o, 'a) train_state \<Rightarrow> ('x \<times> 'y) list list \<Rightarrow>
     exn + ('t resnet, 't, 'o, 'a) train_state"
where
  "train_loop_torch_batches L st [] = Inr st"
| "train_loop_torch_batches L st (batch # batches) =
     (case train_loop_torch_batch L st batch of
        Inl e \<Rightarrow> Inl e
      | Inr st' \<Rightarrow> train_loop_torch_batches L st' batches)"

text \<open>
  The end of an epoch (lines 218 to 226): report, reset, create the directory, save.
  Reading the unbound \<open>loss\<close> raises before anything else is evaluated.
\<close>

definition train_loop_torch_epoch_end ::
  "('x, 'y, 't, 'v, 'o, 'a) lib \<Rightarrow> string \<Rightarrow> nat \<Rightarrow> ('t resnet, 't, 'o, 'a) train_state \<Rightarrow>
     ('v, 't) world \<Rightarrow> (exn + ('t resnet, 't, 'o, 'a) train_state) \<times> ('v, 't) world"
where
  "train_loop_torch_epoch_end L local_path epoch st w =
     (case loss st of
        None \<Rightarrow> (Inl UnboundLocalError, w)
      | Some l \<Rightarrow>
          (case metric_compute L (acc st) of
             Inl e \<Rightarrow> (Inl e, w)
           | Inr accuracy \<Rightarrow>
               (let (metrics, w1) = report_metrics_torch L l accuracy (int epoch) w;
                    st1 = st\<lparr>acc := metric_reset L (acc st)\<rparr>;
                    w2 = log_event EvReset w1
                in case mkdir local_path w2 of
                     Inl e \<Rightarrow> (Inl e, w2)
                   | Inr w3 \<Rightarrow>
                       (case save_checkpoint_and_metrics_torch metrics (model st1) local_path w3 of
                          (Inl e, w4) \<Rightarrow> (Inl e, w4)
                        | (Inr u, w4) \<Rightarrow> (Inr st1, w4)))))"

text \<open>
  The body of the outer loop, for one epoch (lines 200 to 226). The loader is iterated
  once per epoch, so the pass of epoch \<open>k\<close> is its \<open>k\<close>-th pass.
\<close>

definition train_loop_torch_epoch ::
  "('x, 'y, 't, 'v, 'o, 'a) lib \<Rightarrow> ('x, 'y) data_loader \<Rightarrow> string \<Rightarrow> nat \<Rightarrow>
     ('t resnet, 't, 'o, 'a) train_state \<Rightarrow> ('v, 't) world \<Rightarrow>
     (exn + ('t resnet, 't, 'o, 'a) train_state) \<times> ('v, 't) world"
where
  "train_loop_torch_epoch L data_loader local_path epoch st w =
     (case train_loop_torch_batches L st (iter_batches (shuffle_keys L) data_loader epoch) of
        Inl e \<Rightarrow> (Inl e, w)
      | Inr st' \<Rightarrow> train_loop_torch_epoch_end L local_path epoch st' w)"

fun train_loop_torch_epochs ::
  "('x, 'y, 't, 'v, 'o, 'a) lib \<Rightarrow> ('x, 'y) data_loader \<Rightarrow> string \<Rightarrow> nat list \<Rightarrow>
     ('t resnet, 't, 'o, 'a) train_state \<Rightarrow> ('v, 't) world \<Rightarrow>
     (exn + ('t resnet, 't, 'o, 'a) train_state) \<times> ('v, 't) world"
where
  "train_loop_torch_epochs L data_loader local_path [] st w = (Inr st, w)"
| "train_loop_torch_epochs L data_loader local_path (epoch # epochs) st w =
     (case train_loop_torch_epoch L data_loader local_path epoch st w of
        (Inl e, w') \<Rightarrow> (Inl e, w')
      | (Inr st', w') \<Rightarrow> train_loop_torch_epochs L data_loader local_path epochs st' w')"

definition train_loop_torch ::
  "('x, 'y, 't, 'v, 'o, 'a) lib \<Rightarrow> int \<Rightarrow> int \<Rightarrow> string \<Rightarrow> ('v, 't) world \<Rightarrow>
     (exn + unit) \<times> ('v, 't) world"
where
  "train_loop_torch L num_epochs bsz local_path w =
     (case train_loop_torch_setup L bsz of
        Inl e \<Rightarrow> (Inl e, w)
      | Inr (st, data_loader) \<Rightarrow>
          (case train_loop_torch_epochs L data_loader local_path (py_range num_epochs) st w of
             (Inl e, w') \<Rightarrow> (Inl e, w')
           | (Inr st', w') \<Rightarrow> (Inr (), w')))"

section \<open>Parts 2 to 6 of the notebook: Ray Train\<close>

text \<open>
  \<^verbatim>\<open>ray.train.get_context()\<close>: what a worker can ask about its place in the job.
\<close>

record train_context =
  world_rank :: nat
  world_size :: int
  local_rank :: nat
  local_world_size :: int
  node_rank :: nat

definition load_model_ray_train :: "('x, 'y, 't, 'v, 'o, 'a) lib \<Rightarrow> exn + 't prepared" where
  "load_model_ray_train L =
     (let model = resnet18 L 10;
          model = model\<lparr>conv1 := Conv2d (fresh_data L) 1 64 (7, 7) (2, 2) (3, 3) False\<rparr>
      in prepare_model L model)"

definition data_loader_ray_train ::
  "('x, 'y, 't, 'v, 'o, 'a) lib \<Rightarrow> int \<Rightarrow> exn + ('x, 'y) sharded_loader"
where
  "data_loader_ray_train L bsz =
     and_then (MNIST L) (\<lambda>train_data.
     and_then (DataLoader train_data bsz True True) (\<lambda>train_loader.
     prepare_data_loader L train_loader))"

definition print_metrics_ray_train ::
  "('x, 'y, 't, 'v, 'o, 'a) lib \<Rightarrow> train_context \<Rightarrow> 't \<Rightarrow> 't \<Rightarrow> int \<Rightarrow> ('v, 't) world \<Rightarrow>
     'v metrics \<times> ('v, 't) world"
where
  "print_metrics_ray_train L ctx loss_t accuracy epoch w =
     (let metrics = [(''loss'', PyFloat (item L loss_t)), (''accuracy'', PyFloat (item L accuracy)),
                     (''epoch'', PyInt epoch)]
      in (metrics, if world_rank ctx = 0 then log_event (EvPrint metrics) w else w))"

text \<open>\<^verbatim>\<open>tempfile.TemporaryDirectory()\<close>\<close>

definition TemporaryDirectory :: "'t temp_dir" where
  "TemporaryDirectory = []"

text \<open>
  \<^verbatim>\<open>torch.save(sd, os.path.join(temp_checkpoint_dir, name))\<close>: the file \<open>name\<close> of the
  temporary directory is created, or replaced, with the pickled \<open>sd\<close>.
\<close>

definition torch_save_temp ::
  "'t state_dict \<Rightarrow> string \<Rightarrow> 't temp_dir \<Rightarrow> ('v, 't) world \<Rightarrow> 't temp_dir \<times> ('v, 't) world"
where
  "torch_save_temp sd name temp_dir w =
     (filter (\<lambda>f. fst f \<noteq> name) temp_dir @ [(name, sd)], log_event (EvTorchSaveTemp name sd) w)"

text \<open>\<^verbatim>\<open>ray.train.Checkpoint.from_directory(temp_checkpoint_dir)\<close>\<close>

definition from_directory :: "'t temp_dir \<Rightarrow> 't checkpoint" where
  "from_directory temp_dir = Checkpoint temp_dir"

text \<open>\<^verbatim>\<open>ray.train.report(metrics, checkpoint=checkpoint)\<close>\<close>

definition report :: "'v metrics \<Rightarrow> 't checkpoint option \<Rightarrow> ('v, 't) world \<Rightarrow> ('v, 't) world" where
  "report metrics checkpoint w = log_event (EvReport metrics checkpoint) w"

text \<open>
  The notebook defines \<open>save_checkpoint_and_metrics_ray_train\<close> twice. The first cell
  (lines 393 to 404) saves on every worker.
\<close>

definition save_checkpoint_and_metrics_ray_train_first ::
  "'t prepared \<Rightarrow> 'v metrics \<Rightarrow> ('v, 't) world \<Rightarrow> (exn + unit) \<times> ('v, 't) world"
where
  "save_checkpoint_and_metrics_ray_train_first m metrics w =
     (let temp_checkpoint_dir = TemporaryDirectory
      in case module_attr m of
           Inl e \<Rightarrow> (Inl e, w)
         | Inr md \<Rightarrow>
             (let (temp_checkpoint_dir, w1) =
                    torch_save_temp (state_dict md) ''model.pt'' temp_checkpoint_dir w
              in (Inr (), report metrics (Some (from_directory temp_checkpoint_dir)) w1)))"

text \<open>
  The second cell (lines 429 to 443) replaces it, and is what \<open>train_loop_ray_train\<close>
  calls: only rank 0 saves the weights and builds a checkpoint, every worker reports.
\<close>

definition save_checkpoint_and_metrics_ray_train ::
  "train_context \<Rightarrow> 't prepared \<Rightarrow> 'v metrics \<Rightarrow> ('v, 't) world \<Rightarrow> (exn + unit) \<times> ('v, 't) world"
where
  "save_checkpoint_and_metrics_ray_train ctx m metrics w =
     (let temp_checkpoint_dir = TemporaryDirectory;
          checkpoint = None
      in if world_rank ctx = 0 then
           (case module_attr m of
              Inl e \<Rightarrow> (Inl e, w)
            | Inr md \<Rightarrow>
                (let (temp_checkpoint_dir, w1) =
                       torch_save_temp (state_dict md) ''model.pt'' temp_checkpoint_dir w;
                     checkpoint = Some (from_directory temp_checkpoint_dir)
                 in (Inr (), report metrics checkpoint w1)))
         else (Inr (), report metrics checkpoint w))"

text \<open>\<^verbatim>\<open>config[key]\<close> and \<^verbatim>\<open>a // b\<close>\<close>

definition config_get :: "(string \<Rightarrow> int option) \<Rightarrow> string \<Rightarrow> exn + int" where
  "config_get config key = (case config key of None \<Rightarrow> Inl KeyError | Some v \<Rightarrow> Inr v)"

definition floordiv :: "int \<Rightarrow> int \<Rightarrow> exn + int" where
  "floordiv a b = (if b = 0 then Inl ZeroDivisionError else Inr (a div b))"

text \<open>The statements of \<open>train_loop_ray_train\<close> before its loops (lines 470 to 479).\<close>

record ('x, 'y, 't, 'o, 'a) ray_locals =
  locals_state :: "('t prepared, 't, 'o, 'a) train_state"
  global_batch_size :: int
  local_batch_size :: int
  locals_loader :: "('x, 'y) sharded_loader"

definition train_loop_ray_train_setup ::
  "('x, 'y, 't, 'v, 'o, 'a) lib \<Rightarrow> train_context \<Rightarrow> (string \<Rightarrow> int option) \<Rightarrow>
     exn + ('x, 'y, 't, 'o, 'a) ray_locals"
where
  "train_loop_ray_train_setup L ctx config =
     and_then (load_model_ray_train L) (\<lambda>m.
     and_then (Adam L (inner m)) (\<lambda>opt.
     and_then (config_get config ''global_batch_size'') (\<lambda>g.
     and_then (floordiv g (world_size ctx)) (\<lambda>bsz.
     and_then (data_loader_ray_train L bsz) (\<lambda>dl.
     and_then (Accuracy L) (\<lambda>a0.
     and_then (device_attr m) (\<lambda>dev.
     and_then (metric_to L a0 dev) (\<lambda>a.
     Inr \<lparr>locals_state = \<lparr>model = m, optimizer = opt, acc = a, loss = None\<rparr>,
          global_batch_size = g, local_batch_size = bsz, locals_loader = dl\<rparr>))))))))"

text \<open>The body of the inner loop (lines 486 to 491).\<close>

definition train_loop_ray_train_batch ::
  "('x, 'y, 't, 'v, 'o, 'a) lib \<Rightarrow> ('t prepared, 't, 'o, 'a) train_state \<Rightarrow> ('x \<times> 'y) list \<Rightarrow>
     exn + ('t prepared, 't, 'o, 'a) train_state"
where
  "train_loop_ray_train_batch L st batch =
     (let images = map fst batch; labels = map snd batch
      in and_then (forward L (inner (model st)) images) (\<lambda>(outputs, m1).
         and_then (CrossEntropyLoss L outputs labels) (\<lambda>l.
         and_then (backward L l (zero_grad L (optimizer st) m1)) (\<lambda>m2.
         and_then (step L (optimizer st) m2) (\<lambda>(opt, m3).
         and_then (metric_update L (acc st) outputs labels) (\<lambda>a.
         Inr \<lparr>model = with_inner (model st) m3, optimizer = opt, acc = a, loss = Some l\<rparr>))))))"

fun train_loop_ray_train_batches ::
  "('x, 'y, 't, 'v, 'o, 'a) lib \<Rightarrow> ('t prepared, 't, 'o, 'a) train_state \<Rightarrow> ('x \<times> 'y) list list \<Rightarrow>
     exn + ('t prepared, 't, 'o, 'a) train_state"
where
  "train_loop_ray_train_batches L st [] = Inr st"
| "train_loop_ray_train_batches L st (batch # batches) =
     (case train_loop_ray_train_batch L st batch of
        Inl e \<Rightarrow> Inl e
      | Inr st' \<Rightarrow> train_loop_ray_train_batches L st' batches)"

text \<open>The end of an epoch (lines 493 to 495): metrics, checkpoint and report, reset.\<close>

definition train_loop_ray_train_epoch_end ::
  "('x, 'y, 't, 'v, 'o, 'a) lib \<Rightarrow> train_context \<Rightarrow> nat \<Rightarrow> ('t prepared, 't, 'o, 'a) train_state \<Rightarrow>
     ('v, 't) world \<Rightarrow> (exn + ('t prepared, 't, 'o, 'a) train_state) \<times> ('v, 't) world"
where
  "train_loop_ray_train_epoch_end L ctx epoch st w =
     (case loss st of
        None \<Rightarrow> (Inl UnboundLocalError, w)
      | Some l \<Rightarrow>
          (case metric_compute L (acc st) of
             Inl e \<Rightarrow> (Inl e, w)
           | Inr accuracy \<Rightarrow>
               (let (metrics, w1) = print_metrics_ray_train L ctx l accuracy (int epoch) w
                in case save_checkpoint_and_metrics_ray_train ctx (model st) metrics w1 of
                     (Inl e, w2) \<Rightarrow> (Inl e, w2)
                   | (Inr u, w2) \<Rightarrow>
                       (Inr (st\<lparr>acc := metric_reset L (acc st)\<rparr>), log_event EvReset w2))))"

definition train_loop_ray_train_epoch ::
  "('x, 'y, 't, 'v, 'o, 'a) lib \<Rightarrow> train_context \<Rightarrow> ('x, 'y) sharded_loader \<Rightarrow> nat \<Rightarrow>
     ('t prepared, 't, 'o, 'a) train_state \<Rightarrow> ('v, 't) world \<Rightarrow>
     (exn + ('t prepared, 't, 'o, 'a) train_state) \<times> ('v, 't) world"
where
  "train_loop_ray_train_epoch L ctx data_loader epoch st w =
     (let data_loader = set_epoch epoch data_loader
      in case train_loop_ray_train_batches L st (iter_sharded data_loader) of
           Inl e \<Rightarrow> (Inl e, w)
         | Inr st' \<Rightarrow> train_loop_ray_train_epoch_end L ctx epoch st' w)"

fun train_loop_ray_train_epochs ::
  "('x, 'y, 't, 'v, 'o, 'a) lib \<Rightarrow> train_context \<Rightarrow> ('x, 'y) sharded_loader \<Rightarrow> nat list \<Rightarrow>
     ('t prepared, 't, 'o, 'a) train_state \<Rightarrow> ('v, 't) world \<Rightarrow>
     (exn + ('t prepared, 't, 'o, 'a) train_state) \<times> ('v, 't) world"
where
  "train_loop_ray_train_epochs L ctx data_loader [] st w = (Inr st, w)"
| "train_loop_ray_train_epochs L ctx data_loader (epoch # epochs) st w =
     (case train_loop_ray_train_epoch L ctx data_loader epoch st w of
        (Inl e, w') \<Rightarrow> (Inl e, w')
      | (Inr st', w') \<Rightarrow> train_loop_ray_train_epochs L ctx data_loader epochs st' w')"

definition train_loop_ray_train ::
  "('x, 'y, 't, 'v, 'o, 'a) lib \<Rightarrow> train_context \<Rightarrow> (string \<Rightarrow> int option) \<Rightarrow> ('v, 't) world \<Rightarrow>
     (exn + unit) \<times> ('v, 't) world"
where
  "train_loop_ray_train L ctx config w =
     (case train_loop_ray_train_setup L ctx config of
        Inl e \<Rightarrow> (Inl e, w)
      | Inr locals \<Rightarrow>
          (case config_get config ''num_epochs'' of
             Inl e \<Rightarrow> (Inl e, w)
           | Inr num_epochs \<Rightarrow>
               (case train_loop_ray_train_epochs L ctx (locals_loader locals) (py_range num_epochs)
                       (locals_state locals) w of
                  (Inl e, w') \<Rightarrow> (Inl e, w')
                | (Inr st', w') \<Rightarrow> (Inr (), w'))))"

text \<open>The checkpoint reload cell (lines 615 to 621), on the directory of the checkpoint.\<close>

definition reload_checkpoint ::
  "('x, 'y, 't, 'v, 'o, 'a) lib \<Rightarrow> string \<Rightarrow> ('v, 't) world \<Rightarrow> exn + 't resnet"
where
  "reload_checkpoint L ckpt_dir w =
     (let model_path = os_path_join ckpt_dir ''model.pt'';
          loaded_model = build_resnet18 L
      in and_then (torch_load model_path w) (\<lambda>sd.
         and_then (load_state_dict loaded_model sd) (\<lambda>loaded_model.
         Inr (loaded_model\<lparr>training := False\<rparr>))))"

chapter \<open>Describing runs\<close>

section \<open>Reading a trace\<close>

fun is_torch_save :: "('v, 't) event \<Rightarrow> bool" where
  "is_torch_save (EvTorchSave p sd) = True"
| "is_torch_save _ = False"

fun is_reset :: "('v, 't) event \<Rightarrow> bool" where
  "is_reset EvReset = True"
| "is_reset _ = False"

text \<open>The index of the first element that satisfies \<open>P\<close> (the length, if none does).\<close>

fun position :: "('e \<Rightarrow> bool) \<Rightarrow> 'e list \<Rightarrow> nat" where
  "position P [] = 0"
| "position P (x # xs) = (if P x then 0 else Suc (position P xs))"

text \<open>The events that a run added to the trace.\<close>

definition new_events :: "('v, 't) world \<Rightarrow> ('v, 't) world \<Rightarrow> ('v, 't) event list" where
  "new_events w w' = drop (length (trace w)) (trace w')"

text \<open>The metrics dicts printed in a trace.\<close>

fun prints_of :: "('v, 't) event list \<Rightarrow> 'v metrics list" where
  "prints_of [] = []"
| "prints_of (EvPrint m # evs) = m # prints_of evs"
| "prints_of (_ # evs) = prints_of evs"

text \<open>The saves into a temporary directory in a trace: the file name and the state dict of each.\<close>

fun temp_saves_of :: "('v, 't) event list \<Rightarrow> (string \<times> 't state_dict) list" where
  "temp_saves_of [] = []"
| "temp_saves_of (EvTorchSaveTemp name sd # evs) = (name, sd) # temp_saves_of evs"
| "temp_saves_of (_ # evs) = temp_saves_of evs"

text \<open>The calls of \<^verbatim>\<open>ray.train.report\<close> in a trace: the metrics and the checkpoint of each.\<close>

fun reports_of :: "('v, 't) event list \<Rightarrow> ('v metrics \<times> 't checkpoint option) list" where
  "reports_of [] = []"
| "reports_of (EvReport m c # evs) = (m, c) # reports_of evs"
| "reports_of (_ # evs) = reports_of evs"

section \<open>What an epoch leaves behind\<close>

text \<open>
  The actions at the end of one epoch of \<open>train_loop_torch\<close>, in program order, for the
  reported loss \<open>l\<close> and accuracy \<open>a\<close> and the saved state dict \<open>sd\<close>; and the row that
  the epoch adds to \<open>metrics.csv\<close>.
\<close>

definition torch_epoch_trace ::
  "string \<Rightarrow> nat \<Rightarrow> 'v \<Rightarrow> 'v \<Rightarrow> 't state_dict \<Rightarrow> ('v, 't) event list"
where
  "torch_epoch_trace local_path epoch l a sd =
     [EvPrint [(''loss'', PyFloat l), (''epoch'', PyInt (int epoch)), (''accuracy'', PyFloat a)],
      EvReset,
      EvMkdir local_path,
      EvWriteRow (os_path_join local_path ''metrics.csv'') [PyFloat l, PyInt (int epoch), PyFloat a],
      EvTorchSave (os_path_join local_path ''model.pt'') sd]"

definition torch_epoch_row :: "nat \<Rightarrow> 'v \<Rightarrow> 'v \<Rightarrow> ('v, 't) chunk" where
  "torch_epoch_row epoch l a = Row [PyFloat l, PyInt (int epoch), PyFloat a]"

text \<open>A completed epoch as a record: its index, loss, accuracy and saved weights.\<close>

type_synonym ('v, 't) epoch_record = "nat \<times> 'v \<times> 'v \<times> 't state_dict"

definition record_trace :: "string \<Rightarrow> ('v, 't) epoch_record \<Rightarrow> ('v, 't) event list" where
  "record_trace local_path r = (case r of (k, l, a, sd) \<Rightarrow> torch_epoch_trace local_path k l a sd)"

definition record_row :: "('v, 't) epoch_record \<Rightarrow> ('v, 't) chunk" where
  "record_row r = (case r of (k, l, a, sd) \<Rightarrow> torch_epoch_row k l a)"

text \<open>The metrics dict that a completed epoch of \<open>train_loop_torch\<close> prints.\<close>

definition record_metrics :: "('v, 't) epoch_record \<Rightarrow> 'v metrics" where
  "record_metrics r =
     (case r of (k, l, a, sd) \<Rightarrow>
        [(''loss'', PyFloat l), (''epoch'', PyInt (int k)), (''accuracy'', PyFloat a)])"

text \<open>
  The actions at the end of one epoch of \<open>train_loop_ray_train\<close> on a worker, in program
  order: rank 0 prints, saves the weights \<open>sd\<close> into the temporary directory and reports
  with the checkpoint made from it; any other worker reports without a checkpoint;
  then the metric is reset.
\<close>

definition ray_epoch_trace ::
  "train_context \<Rightarrow> nat \<Rightarrow> 'v \<Rightarrow> 'v \<Rightarrow> 't state_dict \<Rightarrow> ('v, 't) event list"
where
  "ray_epoch_trace ctx epoch l a sd =
     (let metrics = [(''loss'', PyFloat l), (''accuracy'', PyFloat a), (''epoch'', PyInt (int epoch))]
      in if world_rank ctx = 0 then
           [EvPrint metrics,
            EvTorchSaveTemp ''model.pt'' sd,
            EvReport metrics (Some (Checkpoint [(''model.pt'', sd)])),
            EvReset]
         else [EvReport metrics None, EvReset])"

definition ray_record_trace :: "train_context \<Rightarrow> ('v, 't) epoch_record \<Rightarrow> ('v, 't) event list" where
  "ray_record_trace ctx r = (case r of (k, l, a, sd) \<Rightarrow> ray_epoch_trace ctx k l a sd)"

text \<open>The report of a completed epoch on a worker.\<close>

definition ray_record_report ::
  "train_context \<Rightarrow> ('v, 't) epoch_record \<Rightarrow> 'v metrics \<times> 't checkpoint option"
where
  "ray_record_report ctx r =
     (case r of (k, l, a, sd) \<Rightarrow>
        ([(''loss'', PyFloat l), (''accuracy'', PyFloat a), (''epoch'', PyInt (int k))],
         if world_rank ctx = 0 then Some (Checkpoint [(''model.pt'', sd)]) else None))"

section \<open>What the metrics of an epoch are computed from\<close>

text \<open>
  The part of the body of the inner loop of \<open>train_loop_torch\<close> that comes before the
  backward pass and the optimizer step (lines 202 to 208): the outputs, the labels and
  the loss of a batch, from the model as it is when the batch starts.
\<close>

definition train_loop_torch_forward ::
  "('x, 'y, 't, 'v, 'o, 'a) lib \<Rightarrow> ('t resnet, 't, 'o, 'a) train_state \<Rightarrow> ('x \<times> 'y) list \<Rightarrow>
     exn + 't \<times> 'y list \<times> 't"
where
  "train_loop_torch_forward L st batch =
     and_then (batch_to_cuda L (map fst batch, map snd batch)) (\<lambda>(images, labels).
     and_then (forward L (model st) images) (\<lambda>(outputs, m1).
     and_then (CrossEntropyLoss L outputs labels) (\<lambda>l.
     Inr (outputs, labels, l))))"

text \<open>The outputs and labels of the batches of an epoch, each from the state its batch starts in.\<close>

fun epoch_outputs ::
  "('x, 'y, 't, 'v, 'o, 'a) lib \<Rightarrow> ('t resnet, 't, 'o, 'a) train_state \<Rightarrow> ('x \<times> 'y) list list \<Rightarrow>
     ('t \<times> 'y list) list"
where
  "epoch_outputs L st [] = []"
| "epoch_outputs L st (batch # batches) =
     (case train_loop_torch_forward L st batch of
        Inl e \<Rightarrow> []
      | Inr (outputs, labels, l) \<Rightarrow>
          (case train_loop_torch_batch L st batch of
             Inl e \<Rightarrow> []
           | Inr st' \<Rightarrow> (outputs, labels) # epoch_outputs L st' batches))"

text \<open>Feeding a metric with a sequence of outputs and labels.\<close>

fun metric_updates ::
  "('x, 'y, 't, 'v, 'o, 'a) lib \<Rightarrow> 'a \<Rightarrow> ('t \<times> 'y list) list \<Rightarrow> exn + 'a"
where
  "metric_updates L a [] = Inr a"
| "metric_updates L a (ol # rest) =
     and_then (metric_update L a (fst ol) (snd ol)) (\<lambda>a'. metric_updates L a' rest)"

section \<open>The architecture of a state dict\<close>

text \<open>The architecture that a state dict fits: its keys and the shape under each.\<close>

definition architecture :: "'t state_dict \<Rightarrow> (string \<times> nat list) list" where
  "architecture sd = map (\<lambda>(k, t). (k, shape t)) sd"

chapter \<open>Concrete runs\<close>

section \<open>A small instance of the libraries\<close>

text \<open>
  Five samples, integers for tensors and floats; the forward pass adds the images to
  the first weight, the loss subtracts the labels, a step adds 100 to the first weight,
  and the metric sums the outputs it has seen. It serves to run the loops on
  concrete inputs.
\<close>

definition demo_lib :: "(nat, nat, int, int, nat, int list) lib" where
  "demo_lib =
     \<lparr>resnet18_body = [(''bn1.weight'', \<lparr>shape = [64], data = 0\<rparr>)],
      fresh_data = (\<lambda>sh. 0),
      to_cuda = (\<lambda>m. Inr (m\<lparr>device := ''cuda''\<rparr>)),
      MNIST = Inr [(1, 1), (2, 0), (3, 1), (4, 0), (5, 1)],
      shuffle_keys = (\<lambda>k i. (i + k) mod 5),
      batch_to_cuda = Inr,
      forward = (\<lambda>m xs. Inr (sum_list (map int xs) + data (weight (conv1 m)), m)),
      CrossEntropyLoss = (\<lambda>out ys. Inr (out - sum_list (map int ys))),
      Adam = (\<lambda>m. Inr 0),
      zero_grad = (\<lambda>opt m. m),
      backward = (\<lambda>l m. Inr m),
      step = (\<lambda>opt m. Inr (Suc opt,
                m\<lparr>conv1 := (conv1 m)\<lparr>weight := (weight (conv1 m))
                       \<lparr>data := data (weight (conv1 m)) + 100\<rparr>\<rparr>\<rparr>)),
      item = (\<lambda>t. t),
      Accuracy = Inr [],
      metric_to = (\<lambda>a dev. Inr a),
      metric_update = (\<lambda>a out ys. Inr (a @ [out])),
      metric_compute = (\<lambda>a. Inr (sum_list a)),
      metric_reset = (\<lambda>a. []),
      prepare_model = (\<lambda>m. Inr (DistributedDataParallel (m\<lparr>device := ''cuda''\<rparr>))),
      prepare_data_loader =
        (\<lambda>dl. Inr \<lparr>shard_batches = iter_batches (\<lambda>k i. i) dl, sampler_epoch = 0\<rparr>)\<rparr>"

definition new_world :: "(int, int) world" where
  "new_world = \<lparr>files = (\<lambda>_. Absent), trace = []\<rparr>"

text \<open>The world after two epochs of the single-GPU loop on the small instance.\<close>

definition demo_world :: "(int, int) world" where
  "demo_world = snd (train_loop_torch demo_lib 2 2 ''run'' new_world)"

text \<open>One more epoch, numbered 7, on a loader that does not shuffle, from \<open>demo_world\<close>.\<close>

definition demo_loader :: "(nat, nat) data_loader" where
  "demo_loader =
     \<lparr>dataset = [(1, 1), (2, 0), (3, 1), (4, 0), (5, 1)], batch_size = 2, shuffle = False,
      drop_last = True\<rparr>"

definition demo_state :: "(int resnet, int, nat, int list) train_state" where
  "demo_state = \<lparr>model = build_resnet18 demo_lib, optimizer = 0, acc = [], loss = None\<rparr>"

definition demo_epoch ::
  "(exn + (int resnet, int, nat, int list) train_state) \<times> (int, int) world"
where
  "demo_epoch = train_loop_torch_epoch demo_lib demo_loader ''run'' 7 demo_state demo_world"

text \<open>The model that the epoch \<open>demo_epoch\<close> has trained, and the world after saving it.\<close>

definition demo_trained :: "int resnet" where
  "demo_trained = model (projr (fst demo_epoch))"

definition demo_saved :: "exn + (int, int) world" where
  "demo_saved = torch_save (state_dict demo_trained) (os_path_join ''run'' ''model.pt'') demo_world"

section \<open>Workers\<close>

text \<open>The context of worker \<open>r\<close> in a job of \<open>n\<close> workers on one node.\<close>

definition worker_context :: "nat \<Rightarrow> nat \<Rightarrow> train_context" where
  "worker_context r n =
     \<lparr>world_rank = r, world_size = int n, local_rank = r, local_world_size = int n, node_rank = 0\<rparr>"

text \<open>The same worker seen from another node: only its local rank and node differ.\<close>

definition moved_worker_context :: train_context where
  "moved_worker_context = (worker_context 1 2)\<lparr>local_rank := 0, local_world_size := 1, node_rank := 1\<rparr>"

definition demo_config :: "string \<Rightarrow> int option" where
  "demo_config = [''num_epochs'' \<mapsto> 2, ''global_batch_size'' \<mapsto> 4]"

text \<open>A library whose \<open>prepare_model\<close> moves the model but does not wrap it.\<close>

definition unwrapped_lib :: "(nat, nat, int, int, nat, int list) lib" where
  "unwrapped_lib = demo_lib\<lparr>prepare_model := (\<lambda>m. Inr (NotWrapped (m\<lparr>device := ''cuda''\<rparr>)))\<rparr>"

text \<open>Worker 0 of 2 on the small instance: its set-up, and its epoch 0.\<close>

definition demo_worker_setup :: "(nat, nat, int, nat, int list) ray_locals" where
  "demo_worker_setup = projr (train_loop_ray_train_setup demo_lib (worker_context 0 2) demo_config)"

definition demo_worker_epoch ::
  "(exn + (int prepared, int, nat, int list) train_state) \<times> (int, int) world"
where
  "demo_worker_epoch =
     train_loop_ray_train_epoch demo_lib (worker_context 0 2) (locals_loader demo_worker_setup) 0
       (locals_state demo_worker_setup) new_world"

section \<open>Runs that raise\<close>

text \<open>No GPU: moving the model to the device raises.\<close>

definition no_gpu_lib :: "(nat, nat, int, int, nat, int list) lib" where
  "no_gpu_lib = demo_lib\<lparr>to_cuda := (\<lambda>m. Inl (LibraryError ''no CUDA device''))\<rparr>"

text \<open>No network: the download of the dataset raises.\<close>

definition no_data_lib :: "(nat, nat, int, int, nat, int list) lib" where
  "no_data_lib = demo_lib\<lparr>MNIST := Inl (LibraryError ''download failed'')\<rparr>"

text \<open>Out of memory: the forward pass raises once the first weight has reached 300.\<close>

definition oom_lib :: "(nat, nat, int, int, nat, int list) lib" where
  "oom_lib = demo_lib\<lparr>forward := (\<lambda>m xs.
     if 300 \<le> data (weight (conv1 m)) then Inl (LibraryError ''CUDA out of memory'')
     else forward demo_lib m xs)\<rparr>"

text \<open>
  A run of \<open>oom_lib\<close> with batch size 2, step by step: the set-up, epoch 0, the batches
  of epoch 1, and the first of them.
\<close>

definition oom_setup ::
  "(int resnet, int, nat, int list) train_state \<times> (nat, nat) data_loader"
where
  "oom_setup = projr (train_loop_torch_setup oom_lib 2)"

definition oom_first_epoch ::
  "(exn + (int resnet, int, nat, int list) train_state) \<times> (int, int) world"
where
  "oom_first_epoch =
     train_loop_torch_epochs oom_lib (snd oom_setup) ''run'' [0..<1] (fst oom_setup) new_world"

definition oom_batches :: "(nat \<times> nat) list list" where
  "oom_batches = iter_batches (shuffle_keys oom_lib) (snd oom_setup) 1"

definition oom_first_batch :: "exn + (int resnet, int, nat, int list) train_state" where
  "oom_first_batch =
     train_loop_torch_batches oom_lib (projr (fst oom_first_epoch)) (take 1 oom_batches)"

text \<open>A run directory in which the entry \<open>model.pt\<close> is a directory.\<close>

definition blocked_world :: "(int, int) world" where
  "blocked_world =
     \<lparr>files = (\<lambda>_. Absent)(''run'' := Directory [''model.pt'' \<mapsto> SubDir]), trace = []\<rparr>"

text \<open>
  A run of \<open>demo_lib\<close> on \<open>blocked_world\<close>, step by step: the set-up, the batches of
  epoch 0, and the actions at the end of epoch 0 (the report, the directory, the
  metrics row, the weights).
\<close>

definition demo_setup ::
  "(int resnet, int, nat, int list) train_state \<times> (nat, nat) data_loader"
where
  "demo_setup = projr (train_loop_torch_setup demo_lib 2)"

definition blocked_batches :: "exn + (int resnet, int, nat, int list) train_state" where
  "blocked_batches =
     train_loop_torch_batches demo_lib (fst demo_setup)
       (iter_batches (shuffle_keys demo_lib) (snd demo_setup) 0)"

definition blocked_reported :: "int metrics \<times> (int, int) world" where
  "blocked_reported = report_metrics_torch demo_lib 106 110 (int 0) blocked_world"

definition blocked_dir :: "exn + (int, int) world" where
  "blocked_dir = mkdir ''run'' (log_event EvReset (snd blocked_reported))"

definition blocked_row :: "exn + (int, int) world" where
  "blocked_row =
     csv_append (os_path_join ''run'' ''metrics.csv'') (dict_values (fst blocked_reported))
       (projr blocked_dir)"

definition blocked_weights :: "exn + (int, int) world" where
  "blocked_weights =
     torch_save (state_dict (model (projr blocked_batches))) (os_path_join ''run'' ''model.pt'')
       (projr blocked_row)"

chapter \<open>Properties\<close>

section \<open>Helper lemmas: errors and files\<close>

lemma and_then_Inl [simp]: "and_then (Inl e) f = Inl e"
  by (simp add: and_then_def)

lemma and_then_Inr [simp]: "and_then (Inr x) f = f x"
  by (simp add: and_then_def)

lemma and_then_eq_Inr: "and_then m f = Inr y \<longleftrightarrow> (\<exists>x. m = Inr x \<and> f x = Inr y)"
  by (cases m) simp_all

lemma trace_log_event [simp]: "trace (log_event ev w) = trace w @ [ev]"
  by (simp add: log_event_def)

lemma files_log_event [simp]: "files (log_event ev w) = files w"
  by (simp add: log_event_def)

lemma new_events_append: "trace w' = trace w @ evs \<Longrightarrow> new_events w w' = evs"
  by (simp add: new_events_def)

lemma read_file_cong: "files w' = files w \<Longrightarrow> read_file p w' = read_file p w"
  by (simp add: read_file_def)

lemma file_chunks_log_event [simp]: "file_chunks (log_event ev w) p = file_chunks w p"
  by (simp add: file_chunks_def read_file_def)

lemma mkdir_Inr:
  assumes "mkdir d w = Inr w'"
  shows "trace w' = trace w @ [EvMkdir d]" and "file_chunks w' p = file_chunks w p"
    and "\<exists>es. files w' d = Directory es"
  using assms
  by (auto simp: mkdir_def file_chunks_def read_file_def split: dir_state.splits if_splits)

lemma mkdir_exist_ok:
  assumes "is_directory (files w d)"
  shows "\<exists>w1. mkdir d w = Inr w1 \<and> file_chunks w1 p = file_chunks w p"
  using assms by (cases "files w d") (simp_all add: mkdir_def)

lemma write_file_Inr:
  assumes "write_file p change w = Inr w'"
  shows "trace w' = trace w" and "file_chunks w' p = change (file_chunks w p)"
    and "q \<noteq> p \<Longrightarrow> file_chunks w' q = file_chunks w q"
  using assms
  by (auto simp: write_file_def file_chunks_def read_file_def prod_eq_iff
           split: dir_state.splits option.splits entry.splits if_splits)

lemma write_file_read:
  assumes "write_file p change w = Inr w'"
  shows "read_file p w' = Inr (change (file_chunks w p))"
  using assms
  by (auto simp: write_file_def file_chunks_def read_file_def
           split: dir_state.splits option.splits entry.splits)

lemma csv_append_Inr:
  assumes "csv_append p row w = Inr w'"
  shows "trace w' = trace w @ [EvWriteRow p row]"
    and "file_chunks w' p = file_chunks w p @ [Row row]"
    and "q \<noteq> p \<Longrightarrow> file_chunks w' q = file_chunks w q"
  using assms by (auto simp: csv_append_def and_then_eq_Inr dest: write_file_Inr)

lemma torch_save_Inr:
  assumes "torch_save sd p w = Inr w'"
  shows "trace w' = trace w @ [EvTorchSave p sd]"
    and "file_chunks w' p = [Pickle sd]"
    and "q \<noteq> p \<Longrightarrow> file_chunks w' q = file_chunks w q"
  using assms by (auto simp: torch_save_def split: sum.splits dest: write_file_Inr)

lemma torch_save_load:
  assumes "torch_save sd p w = Inr w'"
  shows "torch_load p w' = Inr sd"
proof -
  from assms obtain w1 where w1: "write_file p (\<lambda>old. [Pickle sd]) w = Inr w1"
    and w': "w' = log_event (EvTorchSave p sd) w1"
    by (auto simp: torch_save_def split: sum.splits)
  have "read_file p w' = read_file p w1"
    unfolding w' by (rule read_file_cong) simp
  with write_file_read[OF w1] show ?thesis by (simp add: torch_load_def)
qed

lemma metrics_path_neq_model_path:
  "os_path_join d ''metrics.csv'' \<noteq> os_path_join d ''model.pt''"
  by (simp add: os_path_join_def)

section \<open>Helper lemmas: batches of the data loader\<close>

lemma batch_sampler_drop_last_length:
  "0 < bs \<Longrightarrow> length (batch_sampler bs True xs) = length xs div bs"
proof (induction bs True xs rule: batch_sampler.induct)
  case (1 bs xs)
  show ?case
  proof (cases "length xs < bs")
    case True
    with 1(2) show ?thesis by (simp add: batch_sampler.simps[of bs True xs])
  next
    case False
    with 1 have "length (batch_sampler bs True (drop bs xs)) = (length xs - bs) div bs"
      by simp
    with False 1(2) show ?thesis
      by (simp add: batch_sampler.simps[of bs True xs] le_div_geq)
  qed
qed

lemma batch_sampler_drop_last_full:
  "b \<in> set (batch_sampler bs True xs) \<Longrightarrow> length b = bs"
proof (induction bs True xs rule: batch_sampler.induct)
  case (1 bs xs)
  from 1(2) have bs: "bs \<noteq> 0" and ge: "\<not> length xs < bs"
    by (auto simp: batch_sampler.simps[of bs True xs] split: if_splits)
  with 1(2) have "b = take bs xs \<or> b \<in> set (batch_sampler bs True (drop bs xs))"
    by (simp add: batch_sampler.simps[of bs True xs])
  with 1(1)[OF bs ge] ge show ?case by auto
qed

lemma batch_sampler_drop_last_concat:
  "0 < bs \<Longrightarrow> concat (batch_sampler bs True xs) = take (bs * (length xs div bs)) xs"
proof (induction bs True xs rule: batch_sampler.induct)
  case (1 bs xs)
  show ?case
  proof (cases "length xs < bs")
    case True
    with 1(2) show ?thesis by (simp add: batch_sampler.simps[of bs True xs])
  next
    case False
    with 1 have IH: "concat (batch_sampler bs True (drop bs xs))
                  = take (bs * ((length xs - bs) div bs)) (drop bs xs)"
      by simp
    from False 1(2) have d: "length xs div bs = Suc ((length xs - bs) div bs)"
      by (simp add: le_div_geq)
    have "take (bs * Suc ((length xs - bs) div bs)) xs
            = take bs xs @ take (bs * ((length xs - bs) div bs)) (drop bs xs)"
      by (simp add: take_add)
    with IH d False 1(2) show ?thesis
      by (simp add: batch_sampler.simps[of bs True xs])
  qed
qed

lemma length_sampler [simp]: "length (sampler keys dl k) = length (dataset dl)"
  by (simp add: sampler_def)

lemma sampler_permutation:
  "set (sampler keys dl k) = {0..<length (dataset dl)}" and "distinct (sampler keys dl k)"
  by (simp_all add: sampler_def)

lemma data_loader_torch_Inr:
  assumes "data_loader_torch L bsz = Inr dl"
  shows "MNIST L = Inr (dataset dl)" and "0 < bsz" and "batch_size dl = nat bsz"
    and "shuffle dl" and "drop_last dl"
  using assms
  by (auto simp: data_loader_torch_def DataLoader_def and_then_eq_Inr split: if_splits)

section \<open>Helper lemmas: the single-GPU loop\<close>

lemma save_checkpoint_and_metrics_torch_Inr:
  assumes "save_checkpoint_and_metrics_torch metrics m d w = (Inr u, w')"
  shows "trace w' = trace w @ [EvWriteRow (os_path_join d ''metrics.csv'') (dict_values metrics),
                               EvTorchSave (os_path_join d ''model.pt'') (state_dict m)]"
    and "metrics_rows w' d = metrics_rows w d @ [Row (dict_values metrics)]"
    and "model_file w' d = [Pickle (state_dict m)]"
proof -
  from assms obtain w1 where
    a: "csv_append (os_path_join d ''metrics.csv'') (dict_values metrics) w = Inr w1" and
    s: "torch_save (state_dict m) (os_path_join d ''model.pt'') w1 = Inr w'"
    by (auto simp: save_checkpoint_and_metrics_torch_def Let_def split: sum.splits)
  show "trace w' = trace w @ [EvWriteRow (os_path_join d ''metrics.csv'') (dict_values metrics),
                               EvTorchSave (os_path_join d ''model.pt'') (state_dict m)]"
    using csv_append_Inr(1)[OF a] torch_save_Inr(1)[OF s] by simp
  show "metrics_rows w' d = metrics_rows w d @ [Row (dict_values metrics)]"
    using csv_append_Inr(2)[OF a] torch_save_Inr(3)[OF s, of "os_path_join d ''metrics.csv''"]
      metrics_path_neq_model_path[of d]
    by (simp add: metrics_rows_def)
  show "model_file w' d = [Pickle (state_dict m)]"
    using torch_save_Inr(2)[OF s] by (simp add: model_file_def)
qed

lemma train_loop_torch_epoch_end_Inr:
  assumes "train_loop_torch_epoch_end L d k st w = (Inr st', w')"
  obtains l a where "loss st = Some l" and "metric_compute L (acc st) = Inr a"
    and "st' = st\<lparr>acc := metric_reset L (acc st)\<rparr>"
    and "trace w' = trace w @ torch_epoch_trace d k (item L l) (item L a) (state_dict (model st))"
    and "metrics_rows w' d = metrics_rows w d @ [torch_epoch_row k (item L l) (item L a)]"
    and "model_file w' d = [Pickle (state_dict (model st))]"
proof -
  from assms obtain l where l: "loss st = Some l"
    by (auto simp: train_loop_torch_epoch_end_def split: option.splits)
  from assms l obtain a where a: "metric_compute L (acc st) = Inr a"
    by (auto simp: train_loop_torch_epoch_end_def split: sum.splits)
  define ms where "ms = [(''loss'', PyFloat (item L l)), (''epoch'', PyInt (int k)),
                         (''accuracy'', PyFloat (item L a))]"
  define w2 where "w2 = log_event EvReset (log_event (EvPrint ms) w)"
  from assms l a obtain w3 u where
    m: "mkdir d w2 = Inr w3" and
    s: "save_checkpoint_and_metrics_torch ms (model st) d w3 = (Inr u, w')" and
    st': "st' = st\<lparr>acc := metric_reset L (acc st)\<rparr>"
    by (auto simp: train_loop_torch_epoch_end_def report_metrics_torch_def Let_def ms_def w2_def
             split: sum.splits prod.splits)
  have t: "trace w' = trace w @ torch_epoch_trace d k (item L l) (item L a) (state_dict (model st))"
    using mkdir_Inr(1)[OF m] save_checkpoint_and_metrics_torch_Inr(1)[OF s]
    by (simp add: w2_def torch_epoch_trace_def ms_def dict_values_def)
  have r: "metrics_rows w' d = metrics_rows w d @ [torch_epoch_row k (item L l) (item L a)]"
    using mkdir_Inr(2)[OF m] save_checkpoint_and_metrics_torch_Inr(2)[OF s]
    by (simp add: w2_def metrics_rows_def torch_epoch_row_def ms_def dict_values_def)
  have f: "model_file w' d = [Pickle (state_dict (model st))]"
    using save_checkpoint_and_metrics_torch_Inr(3)[OF s] .
  from l a st' t r f that show thesis by blast
qed

lemma train_loop_torch_epochs_Inr:
  assumes "train_loop_torch_epochs L dl d es st w = (Inr st', w')"
  shows "\<exists>recs. map fst recs = es
            \<and> trace w' = trace w @ concat (map (record_trace d) recs)
            \<and> metrics_rows w' d = metrics_rows w d @ map record_row recs
            \<and> (recs \<noteq> [] \<longrightarrow> model_file w' d = [Pickle (snd (snd (snd (last recs))))]
                             \<and> snd (snd (snd (last recs))) = state_dict (model st'))"
  using assms
proof (induction es arbitrary: st w)
  case Nil
  then show ?case by (intro exI[of _ "[]"]) simp
next
  case (Cons k es)
  from Cons.prems obtain st1 w1 where
    e: "train_loop_torch_epoch L dl d k st w = (Inr st1, w1)" and
    rest: "train_loop_torch_epochs L dl d es st1 w1 = (Inr st', w')"
    by (auto split: prod.splits sum.splits)
  from e obtain st0 where
    b: "train_loop_torch_batches L st (iter_batches (shuffle_keys L) dl k) = Inr st0" and
    ee: "train_loop_torch_epoch_end L d k st0 w = (Inr st1, w1)"
    by (auto simp: train_loop_torch_epoch_def split: sum.splits)
  from ee obtain l a where
    st1: "st1 = st0\<lparr>acc := metric_reset L (acc st0)\<rparr>" and
    t: "trace w1 = trace w @ torch_epoch_trace d k (item L l) (item L a) (state_dict (model st0))" and
    r: "metrics_rows w1 d = metrics_rows w d @ [torch_epoch_row k (item L l) (item L a)]" and
    f: "model_file w1 d = [Pickle (state_dict (model st0))]"
    by (rule train_loop_torch_epoch_end_Inr)
  from Cons.IH[OF rest] obtain recs where
    ks: "map fst recs = es" and
    t': "trace w' = trace w1 @ concat (map (record_trace d) recs)" and
    r': "metrics_rows w' d = metrics_rows w1 d @ map record_row recs" and
    f': "recs \<noteq> [] \<longrightarrow> model_file w' d = [Pickle (snd (snd (snd (last recs))))]
                             \<and> snd (snd (snd (last recs))) = state_dict (model st')"
    by blast
  define rec where "rec = (k, item L l, item L a, state_dict (model st0))"
  have last_case: "recs = [] \<Longrightarrow> w' = w1 \<and> st' = st1"
    using ks rest by auto
  have "map fst (rec # recs) = k # es" using ks by (simp add: rec_def)
  moreover have "trace w' = trace w @ concat (map (record_trace d) (rec # recs))"
    using t t' by (simp add: rec_def record_trace_def)
  moreover have "metrics_rows w' d = metrics_rows w d @ map record_row (rec # recs)"
    using r r' by (simp add: rec_def record_row_def)
  moreover have "model_file w' d = [Pickle (snd (snd (snd (last (rec # recs)))))]
                 \<and> snd (snd (snd (last (rec # recs)))) = state_dict (model st')"
    using f f' last_case st1 by (cases "recs = []") (simp_all add: rec_def)
  ultimately show ?case by (intro exI[of _ "rec # recs"]) simp
qed

lemma train_loop_torch_Inr:
  assumes "train_loop_torch L n bsz d w = (Inr u, w')"
  obtains st dl st' where "train_loop_torch_setup L bsz = Inr (st, dl)"
    and "train_loop_torch_epochs L dl d (py_range n) st w = (Inr st', w')"
  using assms by (auto simp: train_loop_torch_def split: sum.splits prod.splits)

lemma train_loop_torch_records:
  assumes "train_loop_torch L n bsz d w = (Inr u, w')"
  obtains recs where "map fst recs = [0..<nat n]"
    and "trace w' = trace w @ concat (map (record_trace d) recs)"
    and "metrics_rows w' d = metrics_rows w d @ map record_row recs"
    and "recs \<noteq> [] \<longrightarrow> model_file w' d = [Pickle (snd (snd (snd (last recs))))]"
proof -
  from assms obtain st dl st' where
    "train_loop_torch_epochs L dl d (py_range n) st w = (Inr st', w')"
    by (rule train_loop_torch_Inr)
  from train_loop_torch_epochs_Inr[OF this] that show thesis
    unfolding py_range_def by blast
qed

lemma prints_of_append: "prints_of (xs @ ys) = prints_of xs @ prints_of ys"
  by (induction xs rule: prints_of.induct) simp_all

lemma prints_of_record_trace:
  "prints_of (concat (map (record_trace d) recs)) = map record_metrics recs"
  by (induction recs)
     (auto simp: prints_of_append record_trace_def torch_epoch_trace_def record_metrics_def)

lemma record_metrics_row_nth:
  fixes recs :: "('v, 't) epoch_record list"
  assumes "map fst recs = [0..<n]" and "k < n"
  shows "\<exists>l a. map record_metrics recs ! k
                 = [(''loss'', PyFloat l), (''epoch'', PyInt (int k)), (''accuracy'', PyFloat a)] \<and>
               (map record_row recs ! k :: ('v, 't) chunk) = Row [PyFloat l, PyInt (int k), PyFloat a]"
proof -
  from assms have len: "length recs = n"
    by (metis length_map length_upt minus_nat.diff_0)
  with assms have "fst (recs ! k) = k"
    by (metis nth_map nth_upt plus_nat.add_0)
  then obtain l a sd where "recs ! k = (k, l, a, sd)"
    by (metis prod.collapse)
  with len assms(2) show ?thesis
    by (simp add: record_row_def torch_epoch_row_def record_metrics_def)
qed

lemma filter_torch_save_record_trace:
  "length (filter is_torch_save (concat (map (record_trace d) recs))) = length recs"
  by (induction recs) (auto simp: record_trace_def torch_epoch_trace_def)

lemma train_loop_torch_setup_Inr:
  assumes "train_loop_torch_setup L bsz = Inr (st, dl)"
  shows "loss st = None" and "data_loader_torch L bsz = Inr dl"
    and "load_model_torch L = Inr (model st)" and "Adam L (model st) = Inr (optimizer st)"
  using assms by (auto simp: train_loop_torch_setup_def and_then_eq_Inr)

lemma py_range_pos: "0 < n \<Longrightarrow> py_range n = 0 # [1..<nat n]"
  by (simp add: py_range_def upt_conv_Cons)

lemma train_loop_torch_batch_Inr:
  assumes "train_loop_torch_batch L st b = Inr st'"
  obtains outputs labels l where "train_loop_torch_forward L st b = Inr (outputs, labels, l)"
    and "loss st' = Some l" and "metric_update L (acc st) outputs labels = Inr (acc st')"
  using assms
  by (auto simp: train_loop_torch_batch_def train_loop_torch_forward_def and_then_eq_Inr)

lemma train_loop_torch_batches_append:
  "train_loop_torch_batches L st (xs @ ys) =
     (case train_loop_torch_batches L st xs of
        Inl e \<Rightarrow> Inl e
      | Inr st' \<Rightarrow> train_loop_torch_batches L st' ys)"
  by (induction xs arbitrary: st) (simp_all split: sum.splits)

lemma train_loop_torch_batches_outputs:
  assumes "train_loop_torch_batches L st bs = Inr st'"
  shows "metric_updates L (acc st) (epoch_outputs L st bs) = Inr (acc st') \<and>
         length (epoch_outputs L st bs) = length bs"
  using assms
proof (induction bs arbitrary: st)
  case Nil
  then show ?case by simp
next
  case (Cons b bs)
  from Cons.prems obtain st1 where
    b: "train_loop_torch_batch L st b = Inr st1" and
    rest: "train_loop_torch_batches L st1 bs = Inr st'"
    by (auto split: sum.splits)
  from b obtain outputs labels l where
    f: "train_loop_torch_forward L st b = Inr (outputs, labels, l)" and
    u: "metric_update L (acc st) outputs labels = Inr (acc st1)"
    by (rule train_loop_torch_batch_Inr)
  show ?case using b f u Cons.IH[OF rest] by simp
qed

lemma train_loop_torch_first_epoch_has_batches:
  assumes run: "train_loop_torch L n bsz d w = (Inr u, w')" and n: "0 < n"
    and dl: "data_loader_torch L bsz = Inr dl"
  shows "iter_batches (shuffle_keys L) dl 0 \<noteq> []"
proof
  assume none: "iter_batches (shuffle_keys L) dl 0 = []"
  from run obtain st dl' st' where
    s: "train_loop_torch_setup L bsz = Inr (st, dl')" and
    e: "train_loop_torch_epochs L dl' d (py_range n) st w = (Inr st', w')"
    by (rule train_loop_torch_Inr)
  from train_loop_torch_setup_Inr(2)[OF s] dl have "dl' = dl" by simp
  moreover have "loss st = None" using s by (rule train_loop_torch_setup_Inr)
  ultimately have "train_loop_torch_epoch L dl' d 0 st w = (Inl UnboundLocalError, w)"
    using none by (simp add: train_loop_torch_epoch_def train_loop_torch_epoch_end_def)
  with e py_range_pos[OF n] show False by simp
qed

lemma train_loop_torch_epochs_append:
  "train_loop_torch_epochs L dl d (xs @ ys) st w =
     (case train_loop_torch_epochs L dl d xs st w of
        (Inl e, w') \<Rightarrow> (Inl e, w')
      | (Inr st', w') \<Rightarrow> train_loop_torch_epochs L dl d ys st' w')"
  by (induction xs arbitrary: st w) (simp_all split: prod.splits sum.splits)

lemma train_loop_torch_raises_in_epoch:
  assumes s: "train_loop_torch_setup L bsz = Inr (st0, dl)" and k: "k < nat n"
    and pre: "train_loop_torch_epochs L dl d [0..<k] st0 w = (Inr st1, w1)"
    and e: "train_loop_torch_epoch L dl d k st1 w1 = (Inl e, w2)"
  shows "train_loop_torch L n bsz d w = (Inl e, w2)"
proof -
  from k have "[0..<nat n] = [0..<k] @ [k..<nat n]"
    using upt_add_eq_append[of 0 k "nat n - k"] by simp
  with k have "py_range n = [0..<k] @ k # [Suc k..<nat n]"
    unfolding py_range_def by (simp add: upt_conv_Cons)
  then have "train_loop_torch_epochs L dl d (py_range n) st0 w = (Inl e, w2)"
    using pre e by (simp add: train_loop_torch_epochs_append)
  with s show ?thesis by (simp add: train_loop_torch_def)
qed

lemma train_loop_torch_batches_raises:
  assumes j: "j < length batches"
    and pre: "train_loop_torch_batches L st (take j batches) = Inr st'"
    and e: "train_loop_torch_batch L st' (batches ! j) = Inl e"
  shows "train_loop_torch_batches L st batches = Inl e"
proof -
  from j have "batches = take j batches @ batches ! j # drop (Suc j) batches"
    by (simp add: id_take_nth_drop)
  then have "train_loop_torch_batches L st batches
               = train_loop_torch_batches L st (take j batches @ batches ! j # drop (Suc j) batches)"
    by simp
  also have "\<dots> = Inl e"
    using pre e by (simp add: train_loop_torch_batches_append del: append_take_drop_id)
  finally show ?thesis .
qed

lemma train_loop_torch_raises_in_batch:
  assumes "train_loop_torch_setup L bsz = Inr (st0, dl)" and "k < nat n"
    and "train_loop_torch_epochs L dl d [0..<k] st0 w = (Inr st1, w1)"
    and "j < length (iter_batches (shuffle_keys L) dl k)"
    and "train_loop_torch_batches L st1 (take j (iter_batches (shuffle_keys L) dl k)) = Inr st2"
    and "train_loop_torch_batch L st2 (iter_batches (shuffle_keys L) dl k ! j) = Inl e"
  shows "train_loop_torch L n bsz d w = (Inl e, w1)"
proof -
  from assms(4-6) have "train_loop_torch_batches L st1 (iter_batches (shuffle_keys L) dl k) = Inl e"
    by (rule train_loop_torch_batches_raises)
  then have "train_loop_torch_epoch L dl d k st1 w1 = (Inl e, w1)"
    by (simp add: train_loop_torch_epoch_def)
  with assms(1-3) show ?thesis by (rule train_loop_torch_raises_in_epoch)
qed

lemma train_loop_torch_raises_at_epoch_end:
  assumes "train_loop_torch_setup L bsz = Inr (st0, dl)" and "k < nat n"
    and "train_loop_torch_epochs L dl d [0..<k] st0 w = (Inr st1, w1)"
    and "train_loop_torch_batches L st1 (iter_batches (shuffle_keys L) dl k) = Inr st2"
    and "train_loop_torch_epoch_end L d k st2 w1 = (Inl e, w2)"
  shows "train_loop_torch L n bsz d w = (Inl e, w2)"
proof -
  from assms(4,5) have "train_loop_torch_epoch L dl d k st1 w1 = (Inl e, w2)"
    by (simp add: train_loop_torch_epoch_def)
  with assms(1-3) show ?thesis by (rule train_loop_torch_raises_in_epoch)
qed

lemma train_loop_torch_setup_raises:
  assumes "to_cuda L (build_resnet18 L) = Inl e \<or>
     (\<exists>m. to_cuda L (build_resnet18 L) = Inr m \<and>
        (Adam L m = Inl e \<or>
         (\<exists>opt. Adam L m = Inr opt \<and>
            (Accuracy L = Inl e \<or>
             (\<exists>a0. Accuracy L = Inr a0 \<and>
                (metric_to L a0 ''cuda'' = Inl e \<or>
                 (\<exists>a. metric_to L a0 ''cuda'' = Inr a \<and>
                    (MNIST L = Inl e \<or>
                     (\<exists>train_data. MNIST L = Inr train_data \<and>
                        DataLoader train_data bsz True True = Inl e)))))))))"
  shows "train_loop_torch_setup L bsz = Inl e"
  using assms
  by (auto simp: train_loop_torch_setup_def load_model_torch_def data_loader_torch_def Let_def)

lemma train_loop_torch_batch_raises:
  assumes "batch_to_cuda L (map fst b, map snd b) = Inl e \<or>
    (\<exists>images labels. batch_to_cuda L (map fst b, map snd b) = Inr (images, labels) \<and>
       (forward L (model st) images = Inl e \<or>
        (\<exists>outputs m1. forward L (model st) images = Inr (outputs, m1) \<and>
           (CrossEntropyLoss L outputs labels = Inl e \<or>
            (\<exists>l. CrossEntropyLoss L outputs labels = Inr l \<and>
               (backward L l (zero_grad L (optimizer st) m1) = Inl e \<or>
                (\<exists>m2. backward L l (zero_grad L (optimizer st) m1) = Inr m2 \<and>
                   (step L (optimizer st) m2 = Inl e \<or>
                    (\<exists>opt m3. step L (optimizer st) m2 = Inr (opt, m3) \<and>
                       metric_update L (acc st) outputs labels = Inl e)))))))))"
  shows "train_loop_torch_batch L st b = Inl e"
  using assms by (auto simp: train_loop_torch_batch_def)

lemma train_loop_torch_epoch_end_raises:
  assumes "loss st = Some l"
    and "metric_compute L (acc st) = Inl e \<and> w4 = w \<or>
     (\<exists>a metrics wp. metric_compute L (acc st) = Inr a \<and>
        report_metrics_torch L l a (int k) w = (metrics, wp) \<and>
        (mkdir d (log_event EvReset wp) = Inl e \<and> w4 = log_event EvReset wp \<or>
         (\<exists>w3. mkdir d (log_event EvReset wp) = Inr w3 \<and>
            (csv_append (os_path_join d ''metrics.csv'') (dict_values metrics) w3 = Inl e \<and>
             w4 = w3 \<or>
             (\<exists>w5. csv_append (os_path_join d ''metrics.csv'') (dict_values metrics) w3 = Inr w5 \<and>
                torch_save (state_dict (model st)) (os_path_join d ''model.pt'') w5 = Inl e \<and>
                w4 = w5)))))"
  shows "train_loop_torch_epoch_end L d k st w = (Inl e, w4)"
  using assms
  by (auto simp: train_loop_torch_epoch_end_def save_checkpoint_and_metrics_torch_def Let_def)

section \<open>Helper lemmas: the Ray Train loop\<close>

lemma module_attr_Inr: "module_attr m = Inr md \<Longrightarrow> md = inner m"
  by (cases m) simp_all

lemma save_checkpoint_and_metrics_ray_train_Inr:
  assumes "save_checkpoint_and_metrics_ray_train ctx m metrics w = (Inr u, w')"
  shows "trace w' = trace w @
           (if world_rank ctx = 0
            then [EvTorchSaveTemp ''model.pt'' (state_dict (inner m)),
                  EvReport metrics (Some (Checkpoint [(''model.pt'', state_dict (inner m))]))]
            else [EvReport metrics None])"
  using assms
  by (auto simp: save_checkpoint_and_metrics_ray_train_def report_def Let_def
             TemporaryDirectory_def torch_save_temp_def from_directory_def
           split: if_splits sum.splits dest: module_attr_Inr)

text \<open>
  The definition of the first cell, which the loop does not call, saves the weights and
  attaches a checkpoint on every worker.
\<close>

lemma save_checkpoint_and_metrics_ray_train_first_Inr:
  assumes "save_checkpoint_and_metrics_ray_train_first m metrics w = (Inr u, w')"
  shows "temp_saves_of (new_events w w') = [(''model.pt'', state_dict (inner m))]"
    and "reports_of (new_events w w')
           = [(metrics, Some (Checkpoint [(''model.pt'', state_dict (inner m))]))]"
  using assms
  by (auto simp: save_checkpoint_and_metrics_ray_train_first_def report_def new_events_def
             Let_def TemporaryDirectory_def torch_save_temp_def from_directory_def
           split: sum.splits dest: module_attr_Inr)

lemma train_loop_ray_train_epoch_end_Inr:
  assumes "train_loop_ray_train_epoch_end L ctx k st w = (Inr st', w')"
  obtains l a where "loss st = Some l" and "metric_compute L (acc st) = Inr a"
    and "st' = st\<lparr>acc := metric_reset L (acc st)\<rparr>"
    and "trace w' = trace w @
           ray_epoch_trace ctx k (item L l) (item L a) (state_dict (inner (model st)))"
proof -
  from assms obtain l where l: "loss st = Some l"
    by (auto simp: train_loop_ray_train_epoch_end_def split: option.splits)
  from assms l obtain a where a: "metric_compute L (acc st) = Inr a"
    by (auto simp: train_loop_ray_train_epoch_end_def split: sum.splits)
  let ?ms = "[(''loss'', PyFloat (item L l)), (''accuracy'', PyFloat (item L a)),
              (''epoch'', PyInt (int k))]"
  let ?w1 = "if world_rank ctx = 0 then log_event (EvPrint ?ms) w else w"
  from assms l a obtain w2 u where
    s: "save_checkpoint_and_metrics_ray_train ctx (model st) ?ms ?w1 = (Inr u, w2)" and
    w': "w' = log_event EvReset w2" and
    st': "st' = st\<lparr>acc := metric_reset L (acc st)\<rparr>"
    by (auto simp: train_loop_ray_train_epoch_end_def print_metrics_ray_train_def Let_def
             split: sum.splits prod.splits)
  have "trace w' = trace w @
           ray_epoch_trace ctx k (item L l) (item L a) (state_dict (inner (model st)))"
    using save_checkpoint_and_metrics_ray_train_Inr[OF s]
    by (simp add: w' ray_epoch_trace_def Let_def)
  with l a st' that show thesis by blast
qed

lemma train_loop_ray_train_epochs_Inr:
  assumes "train_loop_ray_train_epochs L ctx dl es st w = (Inr st', w')"
  shows "\<exists>recs. map fst recs = es
            \<and> trace w' = trace w @ concat (map (ray_record_trace ctx) recs)"
  using assms
proof (induction es arbitrary: st w)
  case Nil
  then show ?case by (intro exI[of _ "[]"]) simp
next
  case (Cons k es)
  from Cons.prems obtain st1 w1 where
    e: "train_loop_ray_train_epoch L ctx dl k st w = (Inr st1, w1)" and
    rest: "train_loop_ray_train_epochs L ctx dl es st1 w1 = (Inr st', w')"
    by (auto split: prod.splits sum.splits)
  from e obtain st0 where
    ee: "train_loop_ray_train_epoch_end L ctx k st0 w = (Inr st1, w1)"
    by (auto simp: train_loop_ray_train_epoch_def Let_def split: sum.splits)
  from ee obtain l a where
    t: "trace w1 = trace w @
          ray_epoch_trace ctx k (item L l) (item L a) (state_dict (inner (model st0)))"
    by (rule train_loop_ray_train_epoch_end_Inr)
  from Cons.IH[OF rest] obtain recs where
    ks: "map fst recs = es" and
    t': "trace w' = trace w1 @ concat (map (ray_record_trace ctx) recs)"
    by blast
  define rec where "rec = (k, item L l, item L a, state_dict (inner (model st0)))"
  have "map fst (rec # recs) = k # es" using ks by (simp add: rec_def)
  moreover have "trace w' = trace w @ concat (map (ray_record_trace ctx) (rec # recs))"
    using t t' by (simp add: rec_def ray_record_trace_def)
  ultimately show ?case by (intro exI[of _ "rec # recs"]) simp
qed

lemma train_loop_ray_train_records:
  assumes "train_loop_ray_train L ctx config w = (Inr u, w')"
  obtains n recs where "config ''num_epochs'' = Some n" and "map fst recs = [0..<nat n]"
    and "trace w' = trace w @ concat (map (ray_record_trace ctx) recs)"
proof -
  from assms obtain locals where
    "train_loop_ray_train_setup L ctx config = Inr locals"
    by (auto simp: train_loop_ray_train_def split: sum.splits)
  with assms obtain n st' where
    n: "config_get config ''num_epochs'' = Inr n" and
    e: "train_loop_ray_train_epochs L ctx (locals_loader locals) (py_range n)
          (locals_state locals) w = (Inr st', w')"
    by (auto simp: train_loop_ray_train_def split: sum.splits prod.splits)
  from n have "config ''num_epochs'' = Some n"
    by (auto simp: config_get_def split: option.splits)
  with train_loop_ray_train_epochs_Inr[OF e] that show thesis
    unfolding py_range_def by blast
qed

lemma reports_of_append: "reports_of (xs @ ys) = reports_of xs @ reports_of ys"
  by (induction xs rule: reports_of.induct) simp_all

lemma reports_of_ray_record_trace:
  "reports_of (concat (map (ray_record_trace ctx) recs)) = map (ray_record_report ctx) recs"
  by (induction recs)
     (auto simp: reports_of_append ray_record_trace_def ray_epoch_trace_def ray_record_report_def
            Let_def)

lemma train_loop_ray_train_reports:
  assumes "train_loop_ray_train L ctx config w = (Inr u, w')" and "config ''num_epochs'' = Some n"
  shows "length (reports_of (new_events w w')) = nat n"
    and "k < nat n \<Longrightarrow> (snd (reports_of (new_events w w') ! k) \<noteq> None) = (world_rank ctx = 0)"
proof -
  from assms obtain recs :: "('a, 'b) epoch_record list" where
    ks: "map fst recs = [0..<nat n]" and
    t: "trace w' = trace w @ concat (map (ray_record_trace ctx) recs)"
    by (auto elim: train_loop_ray_train_records)
  from ks have len: "length recs = nat n"
    by (metis length_map length_upt minus_nat.diff_0)
  have r: "reports_of (new_events w w') = map (ray_record_report ctx) recs"
    using new_events_append[OF t] by (simp add: reports_of_ray_record_trace)
  show "length (reports_of (new_events w w')) = nat n"
    using r len by simp
  show "(snd (reports_of (new_events w w') ! k) \<noteq> None) = (world_rank ctx = 0)" if "k < nat n"
    using r len that by (auto simp: ray_record_report_def split: prod.splits)
qed

lemma temp_saves_of_append: "temp_saves_of (xs @ ys) = temp_saves_of xs @ temp_saves_of ys"
  by (induction xs rule: temp_saves_of.induct) simp_all

lemma temp_saves_of_ray_record_trace:
  "temp_saves_of (concat (map (ray_record_trace ctx) recs))
     = (if world_rank ctx = 0 then map (\<lambda>r. (''model.pt'', snd (snd (snd r)))) recs else [])"
  by (induction recs)
     (auto simp: temp_saves_of_append ray_record_trace_def ray_epoch_trace_def Let_def)

lemma ray_record_report_checkpoints:
  "map snd (map (ray_record_report ctx) recs)
     = (if world_rank ctx = 0
        then map (\<lambda>s. Some (Checkpoint [s])) (map (\<lambda>r. (''model.pt'', snd (snd (snd r)))) recs)
        else replicate (length recs) None)"
  by (induction recs) (auto simp: ray_record_report_def split: prod.splits)

lemma train_loop_ray_train_epoch_Inr:
  assumes "train_loop_ray_train_epoch L ctx dl k st w = (Inr st', w')"
  obtains l a where
    "trace w' = trace w @
       ray_epoch_trace ctx k (item L l) (item L a) (state_dict (inner (model st')))"
    and "world_rank ctx = 0 \<longrightarrow> module_attr (model st') = Inr (inner (model st'))"
    and "\<exists>st0. train_loop_ray_train_batches L st (iter_sharded (set_epoch k dl)) = Inr st0 \<and>
               model st' = model st0"
proof -
  from assms obtain st0 where
    b: "train_loop_ray_train_batches L st (iter_sharded (set_epoch k dl)) = Inr st0" and
    ee: "train_loop_ray_train_epoch_end L ctx k st0 w = (Inr st', w')"
    by (auto simp: train_loop_ray_train_epoch_def Let_def split: sum.splits)
  from ee obtain l a where
    st': "st' = st0\<lparr>acc := metric_reset L (acc st0)\<rparr>" and
    t: "trace w' = trace w @
          ray_epoch_trace ctx k (item L l) (item L a) (state_dict (inner (model st0)))"
    by (rule train_loop_ray_train_epoch_end_Inr)
  have m: "module_attr (model st') = Inr (inner (model st'))" if "world_rank ctx = 0"
    using ee that
    by (auto simp: train_loop_ray_train_epoch_end_def save_checkpoint_and_metrics_ray_train_def
          Let_def split: option.splits sum.splits prod.splits dest: module_attr_Inr)
  from st' have "model st' = model st0" by simp
  with b have "\<exists>st0. train_loop_ray_train_batches L st (iter_sharded (set_epoch k dl)) = Inr st0 \<and>
               model st' = model st0"
    by blast
  with st' t m that show thesis by simp
qed

lemma train_loop_ray_train_saves:
  assumes "train_loop_ray_train L ctx config w = (Inr u, w')" and "config ''num_epochs'' = Some n"
  shows "length (temp_saves_of (new_events w w')) = (if world_rank ctx = 0 then nat n else 0)"
    and "map snd (reports_of (new_events w w')) =
           (if world_rank ctx = 0
            then map (\<lambda>s. Some (Checkpoint [s])) (temp_saves_of (new_events w w'))
            else replicate (nat n) None)"
proof -
  from assms obtain recs :: "('a, 'b) epoch_record list" where
    ks: "map fst recs = [0..<nat n]" and
    t: "trace w' = trace w @ concat (map (ray_record_trace ctx) recs)"
    by (auto elim: train_loop_ray_train_records)
  from ks have len: "length recs = nat n"
    by (metis length_map length_upt minus_nat.diff_0)
  have r: "reports_of (new_events w w') = map (ray_record_report ctx) recs"
    using new_events_append[OF t] by (simp add: reports_of_ray_record_trace)
  have s: "temp_saves_of (new_events w w')
             = (if world_rank ctx = 0 then map (\<lambda>r. (''model.pt'', snd (snd (snd r)))) recs else [])"
    using new_events_append[OF t] by (simp add: temp_saves_of_ray_record_trace)
  show "length (temp_saves_of (new_events w w')) = (if world_rank ctx = 0 then nat n else 0)"
    using s len by simp
  show "map snd (reports_of (new_events w w')) =
           (if world_rank ctx = 0
            then map (\<lambda>s. Some (Checkpoint [s])) (temp_saves_of (new_events w w'))
            else replicate (nat n) None)"
    unfolding r s ray_record_report_checkpoints using len by simp
qed

lemma train_loop_ray_train_not_wrapped:
  assumes "load_model_ray_train L = Inr (NotWrapped m)"
  shows "\<exists>e. train_loop_ray_train L ctx config w = (Inl e, w)"
proof -
  have "isl (train_loop_ray_train_setup L ctx config)"
    using assms
    by (auto simp: train_loop_ray_train_setup_def and_then_def split: sum.splits)
  then show ?thesis
    by (auto simp: train_loop_ray_train_def split: sum.splits)
qed

lemma print_metrics_ray_train_context:
  assumes "world_rank ctx = world_rank ctx'"
  shows "print_metrics_ray_train L ctx l a k w = print_metrics_ray_train L ctx' l a k w"
  using assms by (simp add: print_metrics_ray_train_def)

lemma save_checkpoint_and_metrics_ray_train_context:
  assumes "world_rank ctx = world_rank ctx'"
  shows "save_checkpoint_and_metrics_ray_train ctx m metrics w
           = save_checkpoint_and_metrics_ray_train ctx' m metrics w"
  using assms by (simp add: save_checkpoint_and_metrics_ray_train_def)

lemma train_loop_ray_train_epoch_end_context:
  assumes "world_rank ctx = world_rank ctx'"
  shows "train_loop_ray_train_epoch_end L ctx k st w = train_loop_ray_train_epoch_end L ctx' k st w"
  unfolding train_loop_ray_train_epoch_end_def print_metrics_ray_train_context[OF assms]
    save_checkpoint_and_metrics_ray_train_context[OF assms] ..

lemma train_loop_ray_train_epoch_context:
  assumes "world_rank ctx = world_rank ctx'"
  shows "train_loop_ray_train_epoch L ctx dl k st w = train_loop_ray_train_epoch L ctx' dl k st w"
  unfolding train_loop_ray_train_epoch_def train_loop_ray_train_epoch_end_context[OF assms] ..

lemma train_loop_ray_train_epochs_context:
  assumes "world_rank ctx = world_rank ctx'"
  shows "train_loop_ray_train_epochs L ctx dl es st w = train_loop_ray_train_epochs L ctx' dl es st w"
proof (induction es arbitrary: st w)
  case Nil
  show ?case by simp
next
  case (Cons k es)
  show ?case
    unfolding train_loop_ray_train_epochs.simps train_loop_ray_train_epoch_context[OF assms] Cons.IH ..
qed

lemma floor_division_bounds:
  fixes g w :: int
  assumes "1 \<le> w"
  shows "w * (g div w) \<le> g" and "g < w * (g div w) + w"
proof -
  have "g = w * (g div w) + g mod w" by simp
  moreover have "0 \<le> g mod w" and "g mod w < w" using assms by simp_all
  ultimately show "w * (g div w) \<le> g" and "g < w * (g div w) + w" by linarith+
qed

section \<open>Helper lemmas: state dicts\<close>

lemma conv2d_state_copy:
  "conv2d_state name (c\<lparr>weight := copy_from sd (name @ ''.weight'') (weight c),
                         bias := map_option (copy_from sd (name @ ''.bias'')) (bias c)\<rparr>)
     = map (\<lambda>(k, t). (k, copy_from sd k t)) (conv2d_state name c)"
  by (cases "bias c") (simp_all add: conv2d_state_def)

lemma linear_state_copy:
  "linear_state name (l\<lparr>lin_weight := copy_from sd (name @ ''.weight'') (lin_weight l),
                         lin_bias := copy_from sd (name @ ''.bias'') (lin_bias l)\<rparr>)
     = map (\<lambda>(k, t). (k, copy_from sd k t)) (linear_state name l)"
  by (simp add: linear_state_def)

lemma shape_copy_from [simp]: "shape (copy_from sd k t) = shape t"
  by (simp add: copy_from_def split: option.splits)

lemma load_state_dict_Inr:
  assumes "load_state_dict m sd = Inr m'"
  shows "state_dict m' = map (\<lambda>(k, t). (k, copy_from sd k t)) (state_dict m)"
    and "in_channels (conv1 m') = in_channels (conv1 m)"
    and "out_features (fc m') = out_features (fc m)"
    and "shape (weight (conv1 m')) = shape (weight (conv1 m))"
    and "shape (lin_weight (fc m')) = shape (lin_weight (fc m))"
proof -
  from assms have m': "m' = m\<lparr>conv1 := (conv1 m)
                       \<lparr>weight := copy_from sd ''conv1.weight'' (weight (conv1 m)),
                        bias := map_option (copy_from sd ''conv1.bias'') (bias (conv1 m))\<rparr>,
                     body := map (\<lambda>(k, t). (k, copy_from sd k t)) (body m),
                     fc := (fc m)
                       \<lparr>lin_weight := copy_from sd ''fc.weight'' (lin_weight (fc m)),
                        lin_bias := copy_from sd ''fc.bias'' (lin_bias (fc m))\<rparr>\<rparr>"
    by (simp add: load_state_dict_def Let_def split: if_splits)
  show "state_dict m' = map (\<lambda>(k, t). (k, copy_from sd k t)) (state_dict m)"
    using conv2d_state_copy[where name = "''conv1''" and c = "conv1 m" and sd = sd]
      linear_state_copy[where name = "''fc''" and l = "fc m" and sd = sd]
    by (simp add: m' state_dict_def)
  show "in_channels (conv1 m') = in_channels (conv1 m)"
    and "out_features (fc m') = out_features (fc m)"
    and "shape (weight (conv1 m')) = shape (weight (conv1 m))"
    and "shape (lin_weight (fc m')) = shape (lin_weight (fc m))"
    by (simp_all add: m')
qed

lemma architecture_keys: "map fst (architecture sd) = map fst sd"
  by (simp add: architecture_def case_prod_unfold)

lemma architecture_nth:
  assumes "architecture sd = architecture own" and "i < length own"
  shows "fst (sd ! i) = fst (own ! i)" and "shape (snd (sd ! i)) = shape (snd (own ! i))"
proof -
  from assms(1) have len: "length sd = length own"
    by (metis architecture_def length_map)
  from assms(1) have "architecture sd ! i = architecture own ! i" by simp
  with len assms(2) show "fst (sd ! i) = fst (own ! i)"
    and "shape (snd (sd ! i)) = shape (snd (own ! i))"
    by (simp_all add: architecture_def case_prod_unfold)
qed

lemma copy_from_same_architecture:
  assumes arch: "architecture sd = architecture own" and d: "distinct (map fst own)"
  shows "map (\<lambda>(k, t). (k, copy_from sd k t)) own = sd"
proof (rule nth_equalityI)
  from arch have len: "length sd = length own"
    by (metis architecture_def length_map)
  then show "length (map (\<lambda>(k, t). (k, copy_from sd k t)) own) = length sd" by simp
  fix i assume "i < length (map (\<lambda>(k, t). (k, copy_from sd k t)) own)"
  then have i: "i < length own" by simp
  from d arch have dsd: "distinct (map fst sd)"
    by (metis architecture_keys)
  have "sd ! i \<in> set sd" using i len by simp
  then have "map_of sd (fst (sd ! i)) = Some (snd (sd ! i))"
    using dsd by (metis map_of_is_SomeI prod.collapse)
  then have "copy_from sd (fst (own ! i)) (snd (own ! i)) = snd (sd ! i)"
    using architecture_nth[OF arch i] by (simp add: copy_from_def)
  then show "map (\<lambda>(k, t). (k, copy_from sd k t)) own ! i = sd ! i"
    using i architecture_nth(1)[OF arch i] by (simp add: case_prod_unfold prod_eq_iff)
qed

lemma load_state_dict_same_architecture:
  assumes arch: "architecture sd = architecture (state_dict m)"
    and d: "distinct (map fst (state_dict m))"
  shows "\<exists>m'. load_state_dict m sd = Inr m'"
proof -
  from arch have keys: "map fst sd = map fst (state_dict m)"
    by (metis architecture_keys)
  have "shape t' = shape t" if "(k, t) \<in> set (state_dict m)" and "map_of sd k = Some t'" for k t t'
  proof -
    from that(1) obtain i where i: "i < length (state_dict m)" and ki: "state_dict m ! i = (k, t)"
      by (metis in_set_conv_nth)
    from arch have len: "length sd = length (state_dict m)"
      by (metis architecture_def length_map)
    from d keys have dsd: "distinct (map fst sd)" by simp
    have "sd ! i \<in> set sd" using i len by simp
    then have "map_of sd (fst (sd ! i)) = Some (snd (sd ! i))"
      using dsd by (metis map_of_is_SomeI prod.collapse)
    with architecture_nth[OF arch i] ki that(2) show ?thesis by simp
  qed
  then have "filter (\<lambda>(k, t). case map_of sd k of None \<Rightarrow> False | Some t' \<Rightarrow> shape t' \<noteq> shape t)
               (state_dict m) = []"
    by (auto simp: filter_empty_conv split: option.splits)
  with keys show ?thesis
    by (simp add: load_state_dict_def Let_def filter_empty_conv)
qed

lemma build_resnet18_fields:
  "in_channels (conv1 (build_resnet18 L)) = 1"
  "out_features (fc (build_resnet18 L)) = 10"
  "shape (weight (conv1 (build_resnet18 L))) = [64, 1, 7, 7]"
  "shape (lin_weight (fc (build_resnet18 L))) = [10, 512]"
  by (simp_all add: build_resnet18_def resnet18_def Conv2d_def Linear_def)

section \<open>Facts of the concrete runs\<close>

lemma demo_run_ok: "fst (train_loop_torch demo_lib 2 2 ''run'' new_world) = Inr ()"
  by code_simp

lemma demo_fresh: "metrics_rows new_world ''run'' = []"
  by code_simp

lemma demo_run: "train_loop_torch demo_lib 2 2 ''run'' new_world = (Inr (), demo_world)"
  using demo_run_ok unfolding demo_world_def by (metis prod.collapse)

lemma demo_rerun_ok: "fst (train_loop_torch demo_lib 1 2 ''run'' demo_world) = Inr ()"
  by code_simp

lemma demo_save_ok:
  "fst (save_checkpoint_and_metrics_torch [(''loss'', PyFloat 7)] (build_resnet18 demo_lib) ''run''
         demo_world) = Inr ()"
  by code_simp

lemma demo_world_dir: "is_directory (files demo_world ''run'')"
  by code_simp

lemma demo_epoch_ok: "\<not> isl (fst demo_epoch)"
  by code_simp

lemma demo_epoch_run:
  "train_loop_torch_epoch demo_lib demo_loader ''run'' 7 demo_state demo_world
     = (Inr (projr (fst demo_epoch)), snd demo_epoch)"
  using demo_epoch_ok unfolding demo_epoch_def
  by (metis prod.collapse sum.collapse(2))

lemma demo_epoch_batches:
  "iter_batches (shuffle_keys demo_lib) demo_loader 7 = [[(1, 1), (2, 0)]] @ [[(3, 1), (4, 0)]]"
  by code_simp

lemma demo_epoch_values:
  "map snd (epoch_outputs demo_lib demo_state [[(1, 1), (2, 0)], [(3, 1), (4, 0)]]) = [[1, 0], [1, 0]]"
  "map fst (epoch_outputs demo_lib demo_state [[(1, 1), (2, 0)], [(3, 1), (4, 0)]]) = [3, 107]"
  "metrics_rows (snd demo_epoch) ''run''
     = metrics_rows demo_world ''run'' @ [Row [PyFloat 106, PyInt 7, PyFloat 110]]"
  by code_simp+

lemma demo_loader_ok:
  "\<not> isl (data_loader_torch demo_lib 2)"
  "length (dataset (projr (data_loader_torch demo_lib 2))) = 5"
  "batch_size (projr (data_loader_torch demo_lib 2)) = 2"
  by code_simp+

lemma demo_small_setup_ok:
  "\<not> isl (train_loop_torch_setup demo_lib 6)"
  "\<not> isl (data_loader_torch demo_lib 6)"
  "snd (projr (train_loop_torch_setup demo_lib 6)) = projr (data_loader_torch demo_lib 6)"
  "length (dataset (projr (data_loader_torch demo_lib 6))) = 5"
  "batch_size (projr (data_loader_torch demo_lib 6)) = 6"
  by code_simp+

lemma demo_names_distinct: "distinct (map fst (state_dict (build_resnet18 demo_lib)))"
  by code_simp

lemma demo_trained_architecture:
  "architecture (state_dict demo_trained) = architecture (state_dict (build_resnet18 demo_lib))"
  by code_simp

lemma demo_saved_ok: "\<not> isl demo_saved"
  by code_simp

lemma demo_trained_weight:
  "data (weight (conv1 demo_trained)) = 200"
  "data (weight (conv1 (build_resnet18 demo_lib))) = 0"
  by code_simp+

lemma demo_worker_ok:
  "fst (train_loop_ray_train demo_lib (worker_context 0 2) demo_config new_world) = Inr ()"
  "fst (train_loop_ray_train demo_lib (worker_context 1 2) demo_config new_world) = Inr ()"
  by code_simp+

lemma demo_setup_ok: "\<not> isl (train_loop_ray_train_setup demo_lib (worker_context 1 2) demo_config)"
  by code_simp

lemma demo_worker_epoch_ok:
  "\<not> isl (train_loop_ray_train_setup demo_lib (worker_context 0 2) demo_config)"
  "\<not> isl (fst demo_worker_epoch)"
  "data (weight (conv1 (inner (model (locals_state demo_worker_setup))))) = 0"
  "data (weight (conv1 (inner (model (projr (fst demo_worker_epoch)))))) = 200"
  by code_simp+

lemma demo_world_rows:
  "metrics_rows demo_world ''run''
     = [Row [PyFloat 106, PyInt 0, PyFloat 110], Row [PyFloat 304, PyInt 1, PyFloat 511]]"
  by code_simp

lemma unwrapped_run:
  "load_model_ray_train unwrapped_lib = Inr (NotWrapped (inner (projr (load_model_ray_train unwrapped_lib))))"
  "fst (train_loop_ray_train unwrapped_lib (worker_context 0 1) demo_config new_world)
     = Inl AttributeError"
  by code_simp+

lemma oom_run_steps:
  "\<not> isl (train_loop_torch_setup oom_lib 2)"
  "\<not> isl (fst oom_first_epoch)"
  "1 < length oom_batches"
  "\<not> isl oom_first_batch"
  "batch_to_cuda oom_lib (map fst (oom_batches ! 1), map snd (oom_batches ! 1))
     = Inr (map fst (oom_batches ! 1), map snd (oom_batches ! 1))"
  "forward oom_lib (model (projr oom_first_batch)) (map fst (oom_batches ! 1))
     = Inl (LibraryError ''CUDA out of memory'')"
  "metrics_rows (snd oom_first_epoch) ''run'' = [Row [PyFloat 106, PyInt 0, PyFloat 110]]"
  by code_simp+

lemma blocked_run_steps:
  "\<not> isl (train_loop_torch_setup demo_lib 2)"
  "\<not> isl blocked_batches"
  "loss (projr blocked_batches) = Some 106"
  "metric_compute demo_lib (acc (projr blocked_batches)) = Inr 110"
  "\<not> isl blocked_dir"
  by code_simp+

lemma no_data_steps:
  "\<not> isl (to_cuda no_data_lib (build_resnet18 no_data_lib))"
  "\<not> isl (Adam no_data_lib (projr (to_cuda no_data_lib (build_resnet18 no_data_lib))))"
  "\<not> isl (Accuracy no_data_lib)"
  "\<not> isl (metric_to no_data_lib (projr (Accuracy no_data_lib)) ''cuda'')"
  "MNIST no_data_lib = Inl (LibraryError ''download failed'')"
  by code_simp+

lemma no_gpu_to_cuda:
  "to_cuda no_gpu_lib (build_resnet18 no_gpu_lib) = Inl (LibraryError ''no CUDA device'')"
  by code_simp

lemma blocked_row_steps:
  "\<not> isl blocked_row"
  "isl blocked_weights"
  "projl blocked_weights = RuntimeError"
  "metrics_rows (projr blocked_row) ''run'' = [Row [PyFloat 106, PyInt 0, PyFloat 110]]"
  by code_simp+

section \<open>One checkpoint per epoch in the multi-worker loop\<close>

text \<open>
  C1: an epoch of \<open>train_loop_ray_train\<close> that completes on a worker has called
  \<open>ray.train.report\<close> once. On the worker of world rank 0 it has saved the state dict
  of the unwrapped model (\<open>model.module\<close>, as the batches of the epoch have left it)
  once into the temporary directory, and the report carries the checkpoint made of that file; on
  any other worker it has saved nothing and the report carries no checkpoint. So in a
  job of \<open>nworkers\<close> workers (at least one) whose runs all return, every worker reports
  once per epoch, rank 0 saves once per epoch and the others never, the checkpoints of
  rank 0 are those of its saves, and in every epoch exactly one worker, rank 0,
  produces a checkpoint, whatever the number of workers. (A worker whose model
  \<open>prepare_model\<close> has returned unwrapped completes no epoch: reading \<open>model.device\<close>
  raises in its set-up, if nothing has raised before.)
\<close>

theorem rank0_only_checkpoint:
  fixes w w' :: "('v, 't) world" and ws ws' :: "nat \<Rightarrow> ('v, 't) world"
  shows
  "(train_loop_ray_train_epoch L ctx dl k st w = (Inr st', w') \<longrightarrow>
      (\<exists>st2. train_loop_ray_train_batches L st (iter_sharded (set_epoch k dl)) = Inr st2 \<and>
             model st' = model st2) \<and>
      temp_saves_of (new_events w w') =
        (if world_rank ctx = 0 then [(''model.pt'', state_dict (inner (model st')))] else []) \<and>
      map snd (reports_of (new_events w w')) =
        [if world_rank ctx = 0
         then Some (Checkpoint [(''model.pt'', state_dict (inner (model st')))]) else None] \<and>
      (world_rank ctx = 0 \<longrightarrow> module_attr (model st') = Inr (inner (model st')))) \<and>
   (0 < nworkers \<and> (\<forall>r<nworkers. world_rank (ctxs r) = r) \<and>
    (\<forall>r<nworkers. train_loop_ray_train (Ls r) (ctxs r) config (ws r) = (Inr (), ws' r)) \<and>
    config ''num_epochs'' = Some n \<longrightarrow>
      (\<forall>r<nworkers. length (reports_of (new_events (ws r) (ws' r))) = nat n) \<and>
      (\<forall>r<nworkers. length (temp_saves_of (new_events (ws r) (ws' r)))
                       = (if r = 0 then nat n else 0)) \<and>
      (\<forall>r<nworkers. map snd (reports_of (new_events (ws r) (ws' r))) =
         (if r = 0
          then map (\<lambda>s. Some (Checkpoint [s])) (temp_saves_of (new_events (ws r) (ws' r)))
          else replicate (nat n) None)) \<and>
      (\<forall>k<nat n. \<forall>r<nworkers.
         (snd (reports_of (new_events (ws r) (ws' r)) ! k) \<noteq> None) = (r = 0)) \<and>
      (\<forall>k<nat n.
         length (filter (\<lambda>r. snd (reports_of (new_events (ws r) (ws' r)) ! k) \<noteq> None)
                   [0..<nworkers]) = 1)) \<and>
   (load_model_ray_train L = Inr (NotWrapped m) \<longrightarrow>
      (\<exists>e. train_loop_ray_train L ctx config w = (Inl e, w)))"
proof (intro conjI impI)
  assume "load_model_ray_train L = Inr (NotWrapped m)"
  then show "\<exists>e. train_loop_ray_train L ctx config w = (Inl e, w)"
    by (rule train_loop_ray_train_not_wrapped)
next
  assume e: "train_loop_ray_train_epoch L ctx dl k st w = (Inr st', w')"
  then obtain l a where
    t: "trace w' = trace w @
          ray_epoch_trace ctx k (item L l) (item L a) (state_dict (inner (model st')))" and
    m: "world_rank ctx = 0 \<longrightarrow> module_attr (model st') = Inr (inner (model st'))" and
    b: "\<exists>st0. train_loop_ray_train_batches L st (iter_sharded (set_epoch k dl)) = Inr st0 \<and>
               model st' = model st0"
    by (rule train_loop_ray_train_epoch_Inr)
  from b show "\<exists>st2. train_loop_ray_train_batches L st (iter_sharded (set_epoch k dl)) = Inr st2 \<and>
             model st' = model st2" .
  show "temp_saves_of (new_events w w') =
        (if world_rank ctx = 0 then [(''model.pt'', state_dict (inner (model st')))] else [])"
    using new_events_append[OF t] by (simp add: ray_epoch_trace_def Let_def)
  show "map snd (reports_of (new_events w w')) =
        [if world_rank ctx = 0
         then Some (Checkpoint [(''model.pt'', state_dict (inner (model st')))]) else None]"
    using new_events_append[OF t] by (simp add: ray_epoch_trace_def Let_def)
  show "module_attr (model st') = Inr (inner (model st'))" if "world_rank ctx = 0"
    using m that by simp
next
  assume a: "0 < nworkers \<and> (\<forall>r<nworkers. world_rank (ctxs r) = r) \<and>
    (\<forall>r<nworkers. train_loop_ray_train (Ls r) (ctxs r) config (ws r) = (Inr (), ws' r)) \<and>
    config ''num_epochs'' = Some n"
  then have pos: "0 < nworkers" and rk: "\<And>r. r < nworkers \<Longrightarrow> world_rank (ctxs r) = r"
    and run: "\<And>r. r < nworkers \<Longrightarrow>
                train_loop_ray_train (Ls r) (ctxs r) config (ws r) = (Inr (), ws' r)"
    and cfg: "config ''num_epochs'' = Some n"
    by simp_all
  show len: "\<forall>r<nworkers. length (reports_of (new_events (ws r) (ws' r))) = nat n"
    using run cfg train_loop_ray_train_reports(1) by blast
  show "\<forall>r<nworkers. length (temp_saves_of (new_events (ws r) (ws' r)))
                       = (if r = 0 then nat n else 0)"
    using train_loop_ray_train_saves(1)[OF run cfg] rk by simp
  show "\<forall>r<nworkers. map snd (reports_of (new_events (ws r) (ws' r))) =
         (if r = 0
          then map (\<lambda>s. Some (Checkpoint [s])) (temp_saves_of (new_events (ws r) (ws' r)))
          else replicate (nat n) None)"
    using train_loop_ray_train_saves(2)[OF run cfg] rk by simp
  have ck: "(snd (reports_of (new_events (ws r) (ws' r)) ! k) \<noteq> None) = (r = 0)"
    if "r < nworkers" and "k < nat n" for r k
    using train_loop_ray_train_reports(2)[OF run[OF that(1)] cfg that(2)] rk[OF that(1)] by simp
  then show "\<forall>k<nat n. \<forall>r<nworkers.
         (snd (reports_of (new_events (ws r) (ws' r)) ! k) \<noteq> None) = (r = 0)"
    by blast
  show "\<forall>k<nat n.
         length (filter (\<lambda>r. snd (reports_of (new_events (ws r) (ws' r)) ! k) \<noteq> None)
                   [0..<nworkers]) = 1"
  proof (intro allI impI)
    fix k assume k: "k < nat n"
    have "filter (\<lambda>r. snd (reports_of (new_events (ws r) (ws' r)) ! k) \<noteq> None) [0..<nworkers]
            = filter (\<lambda>r. r = 0) [0..<nworkers]"
      using ck k by (intro filter_cong) auto
    also have "\<dots> = [0]"
      using pos by (cases nworkers) (simp_all add: upt_conv_Cons filter_empty_conv del: upt_Suc)
    finally show "length (filter (\<lambda>r. snd (reports_of (new_events (ws r) (ws' r)) ! k) \<noteq> None)
                   [0..<nworkers]) = 1"
      by simp
  qed
qed

theorem rank0_only_checkpoint_witness:
  "\<not> isl (fst demo_worker_epoch) \<and>
   data (weight (conv1 (inner (model (locals_state demo_worker_setup))))) = 0 \<and>
   data (weight (conv1 (inner (model (projr (fst demo_worker_epoch)))))) = 200 \<and>
   temp_saves_of (new_events new_world (snd demo_worker_epoch))
     = [(''model.pt'', state_dict (inner (model (projr (fst demo_worker_epoch)))))] \<and>
   map snd (reports_of (new_events new_world (snd demo_worker_epoch)))
     = [Some (Checkpoint [(''model.pt'', state_dict (inner (model (projr (fst demo_worker_epoch)))))])] \<and>
   fst (train_loop_ray_train demo_lib (worker_context 0 2) demo_config new_world) = Inr () \<and>
   fst (train_loop_ray_train demo_lib (worker_context 1 2) demo_config new_world) = Inr () \<and>
   demo_config ''num_epochs'' = Some 2 \<and>
   length (temp_saves_of (new_events new_world
     (snd (train_loop_ray_train demo_lib (worker_context 0 2) demo_config new_world)))) = 2 \<and>
   temp_saves_of (new_events new_world
     (snd (train_loop_ray_train demo_lib (worker_context 1 2) demo_config new_world))) = [] \<and>
   map snd (reports_of (new_events new_world
     (snd (train_loop_ray_train demo_lib (worker_context 1 2) demo_config new_world))))
     = [None, None] \<and>
   length (filter
     (\<lambda>r. snd (reports_of (new_events new_world
                  (snd (train_loop_ray_train demo_lib (worker_context r 2) demo_config new_world)))
                ! 1) \<noteq> None) [0..<2]) = 1 \<and>
   load_model_ray_train unwrapped_lib
     = Inr (NotWrapped (inner (projr (load_model_ray_train unwrapped_lib)))) \<and>
   train_loop_ray_train unwrapped_lib (worker_context 0 1) demo_config new_world
     = (Inl AttributeError, new_world)"
proof -
  let ?run = "\<lambda>r. train_loop_ray_train demo_lib (worker_context r 2) demo_config new_world"
  let ?st' = "projr (fst demo_worker_epoch)"
  have 7: "train_loop_ray_train unwrapped_lib (worker_context 0 1) demo_config new_world
             = (Inl AttributeError, new_world)"
    using rank0_only_checkpoint[where L = unwrapped_lib and ctx = "worker_context 0 1"
        and config = demo_config and w = new_world, THEN conjunct2, THEN conjunct2, rule_format,
        OF unwrapped_run(1)] unwrapped_run(2)
    by auto
  have e: "train_loop_ray_train_epoch demo_lib (worker_context 0 2) (locals_loader demo_worker_setup)
             0 (locals_state demo_worker_setup) new_world = (Inr ?st', snd demo_worker_epoch)"
    using demo_worker_epoch_ok(2) unfolding demo_worker_epoch_def
    by (metis prod.collapse sum.collapse(2))
  have r0: "world_rank (worker_context 0 2) = 0"
    by (simp add: worker_context_def)
  note ep = rank0_only_checkpoint[THEN conjunct1, rule_format, OF e]
  have 1: "temp_saves_of (new_events new_world (snd demo_worker_epoch))
     = [(''model.pt'', state_dict (inner (model ?st')))]"
    using ep r0 by simp
  have 2: "map snd (reports_of (new_events new_world (snd demo_worker_epoch)))
     = [Some (Checkpoint [(''model.pt'', state_dict (inner (model ?st')))])]"
    using ep r0 by simp
  have ok: "\<forall>r<2. ?run r = (Inr (), snd (?run r))"
    using demo_worker_ok by (auto simp: less_2_cases_iff prod_eq_iff)
  have rk: "\<forall>r<2. world_rank (worker_context r 2) = r"
    by (simp add: worker_context_def)
  have cfg: "demo_config ''num_epochs'' = Some 2"
    by (simp add: demo_config_def)
  have hyp: "0 < (2::nat) \<and> (\<forall>r<2. world_rank (worker_context r 2) = r) \<and>
    (\<forall>r<2. ?run r = (Inr (), snd (?run r))) \<and> demo_config ''num_epochs'' = Some 2"
    using ok rk cfg by simp
  note run = rank0_only_checkpoint[where nworkers = 2 and ctxs = "\<lambda>r. worker_context r 2"
      and Ls = "\<lambda>r. demo_lib" and ws = "\<lambda>r. new_world" and ws' = "\<lambda>r. snd (?run r)"
      and config = demo_config and n = 2, THEN conjunct2, THEN conjunct1, rule_format, OF hyp]
  have 3: "length (temp_saves_of (new_events new_world (snd (?run 0)))) = 2"
    using run[THEN conjunct2, THEN conjunct1, rule_format, of 0] by simp
  have 4: "temp_saves_of (new_events new_world (snd (?run 1))) = []"
    using run[THEN conjunct2, THEN conjunct1, rule_format, of 1] by simp
  have 5: "map snd (reports_of (new_events new_world (snd (?run 1)))) = [None, None]"
    using run[THEN conjunct2, THEN conjunct2, THEN conjunct1, rule_format, of 1]
    by (simp add: numeral_2_eq_2)
  have 6: "length (filter (\<lambda>r. snd (reports_of (new_events new_world (snd (?run r))) ! 1) \<noteq> None)
          [0..<2]) = 1"
    using run[THEN conjunct2, THEN conjunct2, THEN conjunct2, THEN conjunct2, rule_format, of 1]
    by simp
  from 1 2 3 4 5 6 7 demo_worker_epoch_ok(2,3,4) demo_worker_ok cfg unwrapped_run(1)
  show ?thesis by blast
qed

section \<open>The order of the actions at the end of an epoch\<close>

text \<open>
  C2, as amended: a run that returns has performed, epoch after epoch, the actions of
  \<open>torch_epoch_trace\<close> (single GPU: print the metrics, reset the accuracy metric, make
  the directory, write the metrics row, save the weights) or of \<open>ray_epoch_trace\<close>
  (Ray Train: on rank 0 print the metrics, save the weights into the temporary
  directory and report with the checkpoint, on any other worker report without one;
  then reset the accuracy metric), in that order. Only the Ray Train loop resets the
  metric after the checkpoint; the single-GPU loop resets it before.
\<close>

theorem epoch_end_order:
  fixes w w' wr wr' :: "('v, 't) world"
  shows
  "(train_loop_torch L num_epochs bsz local_path w = (Inr (), w') \<longrightarrow>
      (\<exists>recs. map fst recs = [0..<nat num_epochs] \<and>
         new_events w w' = concat (map (record_trace local_path) recs))) \<and>
   (train_loop_ray_train L ctx config wr = (Inr (), wr') \<longrightarrow>
      (\<exists>n recs. config ''num_epochs'' = Some n \<and> map fst recs = [0..<nat n] \<and>
         new_events wr wr' = concat (map (ray_record_trace ctx) recs)))"
proof (intro conjI impI)
  assume "train_loop_torch L num_epochs bsz local_path w = (Inr (), w')"
  then obtain recs :: "('v, 't) epoch_record list" where
    "map fst recs = [0..<nat num_epochs]"
    "trace w' = trace w @ concat (map (record_trace local_path) recs)"
    by (rule train_loop_torch_records)
  then show "\<exists>recs. map fst recs = [0..<nat num_epochs] \<and>
         new_events w w' = concat (map (record_trace local_path) recs)"
    using new_events_append by blast
next
  assume "train_loop_ray_train L ctx config wr = (Inr (), wr')"
  then obtain n and recs :: "('v, 't) epoch_record list" where
    "config ''num_epochs'' = Some n" "map fst recs = [0..<nat n]"
    "trace wr' = trace wr @ concat (map (ray_record_trace ctx) recs)"
    by (rule train_loop_ray_train_records)
  then show "\<exists>n recs. config ''num_epochs'' = Some n \<and> map fst recs = [0..<nat n] \<and>
         new_events wr wr' = concat (map (ray_record_trace ctx) recs)"
    using new_events_append by blast
qed

theorem epoch_end_order_witness:
  "fst (train_loop_torch demo_lib 2 2 ''run'' new_world) = Inr () \<and>
   (\<exists>recs. map fst recs = [0..<2] \<and>
      new_events new_world demo_world = concat (map (record_trace ''run'') recs)) \<and>
   fst (train_loop_ray_train demo_lib (worker_context 1 2) demo_config new_world) = Inr () \<and>
   (\<exists>n recs. demo_config ''num_epochs'' = Some n \<and> map fst recs = [0..<nat n] \<and>
      new_events new_world
        (snd (train_loop_ray_train demo_lib (worker_context 1 2) demo_config new_world))
        = concat (map (ray_record_trace (worker_context 1 2)) recs))"
proof -
  let ?run = "train_loop_ray_train demo_lib (worker_context 1 2) demo_config new_world"
  have r: "?run = (Inr (), snd ?run)" using demo_worker_ok(2) by (metis prod.collapse)
  have 1: "\<exists>recs. map fst recs = [0..<2] \<and>
      new_events new_world demo_world = concat (map (record_trace ''run'') recs)"
    using epoch_end_order[where L = demo_lib and num_epochs = 2 and bsz = 2
        and local_path = "''run''" and w = new_world and w' = demo_world,
        THEN conjunct1, rule_format, OF demo_run]
    by simp
  have 2: "\<exists>n recs. demo_config ''num_epochs'' = Some n \<and> map fst recs = [0..<nat n] \<and>
      new_events new_world (snd ?run) = concat (map (ray_record_trace (worker_context 1 2)) recs)"
    using epoch_end_order[where L = demo_lib and ctx = "worker_context 1 2"
        and config = demo_config and wr = new_world and wr' = "snd ?run",
        THEN conjunct2, rule_format, OF r] .
  from 1 2 demo_run_ok demo_worker_ok(2) show ?thesis by blast
qed

text \<open>
  The claim as stated fails on the single-GPU loop: in a run of one epoch the reset is
  the second action and the write of the weights the fifth.
\<close>

theorem reset_precedes_checkpoint_write:
  "fst (train_loop_torch demo_lib 1 2 ''run'' new_world) = Inr () \<and>
   trace (snd (train_loop_torch demo_lib 1 2 ''run'' new_world)) =
     [EvPrint [(''loss'', PyFloat 106), (''epoch'', PyInt 0), (''accuracy'', PyFloat 110)],
      EvReset,
      EvMkdir ''run'',
      EvWriteRow (''run'', ''metrics.csv'') [PyFloat 106, PyInt 0, PyFloat 110],
      EvTorchSave (''run'', ''model.pt'')
        [(''conv1.weight'', \<lparr>shape = [64, 1, 7, 7], data = 200\<rparr>),
         (''bn1.weight'', \<lparr>shape = [64], data = 0\<rparr>),
         (''fc.weight'', \<lparr>shape = [10, 512], data = 0\<rparr>),
         (''fc.bias'', \<lparr>shape = [10], data = 0\<rparr>)]] \<and>
   position is_reset (trace (snd (train_loop_torch demo_lib 1 2 ''run'' new_world))) = 1 \<and>
   position is_torch_save (trace (snd (train_loop_torch demo_lib 1 2 ''run'' new_world))) = 4"
  by code_simp

section \<open>The metrics log of the single-GPU loop\<close>

text \<open>
  C3: an epoch \<open>k\<close> of \<open>train_loop_torch\<close> that completes has added one row to
  \<open>metrics.csv\<close> of the run directory, after the rows that were there: first the loss
  (the value of the variable \<open>loss\<close> when the batches are done), then the epoch \<open>k\<close>,
  then the accuracy (the value of \<open>acc.compute()\<close>); these are the values that the
  epoch prints under the names loss, epoch and accuracy. So when \<open>train_loop_torch\<close>
  returns after \<open>num_epochs\<close> epochs, having started with no rows in \<open>metrics.csv\<close>
  (a fresh directory has none), the file holds exactly \<open>num_epochs\<close> rows, and row \<open>k\<close>
  is the row of epoch \<open>k\<close>: its columns are, in this order, what epoch \<open>k\<close> printed as
  loss, the number \<open>k\<close>, and what it printed as accuracy.
\<close>

theorem metrics_log_one_row_per_epoch:
  fixes w w' wa wb :: "('v, 't) world"
  shows
  "(train_loop_torch_epoch L dl local_path k st w = (Inr st', w') \<longrightarrow>
      (\<exists>st2 l a.
         train_loop_torch_batches L st (iter_batches (shuffle_keys L) dl k) = Inr st2 \<and>
         loss st2 = Some l \<and> metric_compute L (acc st2) = Inr a \<and>
         prints_of (new_events w w') =
           [[(''loss'', PyFloat (item L l)), (''epoch'', PyInt (int k)),
             (''accuracy'', PyFloat (item L a))]] \<and>
         metrics_rows w' local_path =
           metrics_rows w local_path @
             [Row [PyFloat (item L l), PyInt (int k), PyFloat (item L a)]])) \<and>
   (train_loop_torch L num_epochs bsz local_path wa = (Inr (), wb) \<and>
    metrics_rows wa local_path = [] \<longrightarrow>
      length (metrics_rows wb local_path) = nat num_epochs \<and>
      length (prints_of (new_events wa wb)) = nat num_epochs \<and>
      (\<forall>k < nat num_epochs. \<exists>l a.
         prints_of (new_events wa wb) ! k =
           [(''loss'', PyFloat l), (''epoch'', PyInt (int k)), (''accuracy'', PyFloat a)] \<and>
         metrics_rows wb local_path ! k = Row [PyFloat l, PyInt (int k), PyFloat a]))"
proof (intro conjI impI)
  assume "train_loop_torch_epoch L dl local_path k st w = (Inr st', w')"
  then obtain st2 where
    b: "train_loop_torch_batches L st (iter_batches (shuffle_keys L) dl k) = Inr st2" and
    ee: "train_loop_torch_epoch_end L local_path k st2 w = (Inr st', w')"
    by (auto simp: train_loop_torch_epoch_def split: sum.splits)
  from ee obtain l a where
    l: "loss st2 = Some l" and
    c: "metric_compute L (acc st2) = Inr a" and
    t: "trace w' = trace w @
          torch_epoch_trace local_path k (item L l) (item L a) (state_dict (model st2))" and
    r: "metrics_rows w' local_path =
          metrics_rows w local_path @ [torch_epoch_row k (item L l) (item L a)]"
    by (rule train_loop_torch_epoch_end_Inr)
  have p: "prints_of (new_events w w') =
           [[(''loss'', PyFloat (item L l)), (''epoch'', PyInt (int k)),
             (''accuracy'', PyFloat (item L a))]]"
    using new_events_append[OF t] by (simp add: torch_epoch_trace_def)
  from b l c p r
  show "\<exists>st2 l a.
         train_loop_torch_batches L st (iter_batches (shuffle_keys L) dl k) = Inr st2 \<and>
         loss st2 = Some l \<and> metric_compute L (acc st2) = Inr a \<and>
         prints_of (new_events w w') =
           [[(''loss'', PyFloat (item L l)), (''epoch'', PyInt (int k)),
             (''accuracy'', PyFloat (item L a))]] \<and>
         metrics_rows w' local_path =
           metrics_rows w local_path @
             [Row [PyFloat (item L l), PyInt (int k), PyFloat (item L a)]]"
    by (auto simp: torch_epoch_row_def)
next
  assume a: "train_loop_torch L num_epochs bsz local_path wa = (Inr (), wb) \<and>
    metrics_rows wa local_path = []"
  then obtain recs :: "('v, 't) epoch_record list" where
    ks: "map fst recs = [0..<nat num_epochs]" and
    t: "trace wb = trace wa @ concat (map (record_trace local_path) recs)" and
    rows: "metrics_rows wb local_path = metrics_rows wa local_path @ map record_row recs"
    by (blast elim: train_loop_torch_records)
  from ks have len: "length recs = nat num_epochs"
    by (metis length_map length_upt minus_nat.diff_0)
  have p: "prints_of (new_events wa wb) = map record_metrics recs"
    using new_events_append[OF t] by (simp add: prints_of_record_trace)
  from a rows have rows': "metrics_rows wb local_path = map record_row recs" by simp
  show "length (metrics_rows wb local_path) = nat num_epochs"
    using rows' len by simp
  show "length (prints_of (new_events wa wb)) = nat num_epochs"
    using p len by simp
  show "\<forall>k < nat num_epochs. \<exists>l a.
         prints_of (new_events wa wb) ! k =
           [(''loss'', PyFloat l), (''epoch'', PyInt (int k)), (''accuracy'', PyFloat a)] \<and>
         metrics_rows wb local_path ! k = Row [PyFloat l, PyInt (int k), PyFloat a]"
    unfolding p rows' using record_metrics_row_nth[OF ks] by blast
qed

theorem metrics_log_one_row_per_epoch_witness:
  "\<not> isl (fst demo_epoch) \<and>
   (\<exists>st2 l a.
      train_loop_torch_batches demo_lib demo_state
        (iter_batches (shuffle_keys demo_lib) demo_loader 7) = Inr st2 \<and>
      loss st2 = Some l \<and> metric_compute demo_lib (acc st2) = Inr a \<and>
      prints_of (new_events demo_world (snd demo_epoch)) =
        [[(''loss'', PyFloat (item demo_lib l)), (''epoch'', PyInt (int 7)),
          (''accuracy'', PyFloat (item demo_lib a))]] \<and>
      metrics_rows (snd demo_epoch) ''run'' =
        metrics_rows demo_world ''run'' @
          [Row [PyFloat (item demo_lib l), PyInt (int 7), PyFloat (item demo_lib a)]]) \<and>
   metrics_rows (snd demo_epoch) ''run''
     = metrics_rows demo_world ''run'' @ [Row [PyFloat 106, PyInt 7, PyFloat 110]] \<and>
   fst (train_loop_torch demo_lib 2 2 ''run'' new_world) = Inr () \<and>
   metrics_rows new_world ''run'' = [] \<and>
   length (metrics_rows demo_world ''run'') = 2 \<and>
   length (prints_of (new_events new_world demo_world)) = 2 \<and>
   (\<exists>l a. prints_of (new_events new_world demo_world) ! 1
             = [(''loss'', PyFloat l), (''epoch'', PyInt 1), (''accuracy'', PyFloat a)] \<and>
          metrics_rows demo_world ''run'' ! 1 = Row [PyFloat l, PyInt 1, PyFloat a]) \<and>
   metrics_rows demo_world ''run''
     = [Row [PyFloat 106, PyInt 0, PyFloat 110], Row [PyFloat 304, PyInt 1, PyFloat 511]]"
proof -
  note ep = metrics_log_one_row_per_epoch[THEN conjunct1, rule_format, OF demo_epoch_run]
  note run = metrics_log_one_row_per_epoch[where L = demo_lib and num_epochs = 2 and bsz = 2
      and local_path = "''run''" and wa = new_world and wb = demo_world,
      THEN conjunct2, rule_format, OF conjI, OF demo_run demo_fresh]
  from run have len: "length (metrics_rows demo_world ''run'') = 2"
    and plen: "length (prints_of (new_events new_world demo_world)) = 2"
    by simp_all
  from run have "1 < nat 2 \<longrightarrow>
    (\<exists>l a. prints_of (new_events new_world demo_world) ! 1
             = [(''loss'', PyFloat l), (''epoch'', PyInt (int 1)), (''accuracy'', PyFloat a)] \<and>
          metrics_rows demo_world ''run'' ! 1 = Row [PyFloat l, PyInt (int 1), PyFloat a])"
    by blast
  then have row: "\<exists>l a. prints_of (new_events new_world demo_world) ! 1
             = [(''loss'', PyFloat l), (''epoch'', PyInt 1), (''accuracy'', PyFloat a)] \<and>
          metrics_rows demo_world ''run'' ! 1 = Row [PyFloat l, PyInt 1, PyFloat a]"
    by simp
  from ep len plen row demo_epoch_ok demo_epoch_values(3) demo_run_ok demo_fresh demo_world_rows
  show ?thesis by blast
qed

section \<open>Checkpoints of the single-GPU loop\<close>

text \<open>
  C4, as amended: an epoch of the single-GPU loop that completes has saved the weights
  exactly once, and \<open>model.pt\<close> then holds exactly the state dict of the model at the
  end of that epoch, whatever it held before; a run of \<open>num_epochs\<close> epochs that
  returns has saved \<open>num_epochs\<close> times and leaves a file of one pickled state dict.
  (Atomicity is not part of it.)
\<close>

theorem checkpoint_supersedes:
  fixes w w' wa :: "('v, 't) world"
  shows
  "(train_loop_torch_epoch L data_loader local_path epoch st w = (Inr st', w') \<longrightarrow>
      length (filter is_torch_save (new_events w w')) = 1 \<and>
      model_file w' local_path = [Pickle (state_dict (model st'))]) \<and>
   (train_loop_torch L num_epochs bsz local_path w = (Inr (), wa) \<longrightarrow>
      length (filter is_torch_save (new_events w wa)) = nat num_epochs \<and>
      (0 < num_epochs \<longrightarrow> (\<exists>sd. model_file wa local_path = [Pickle sd])))"
proof (intro conjI impI)
  assume e: "train_loop_torch_epoch L data_loader local_path epoch st w = (Inr st', w')"
  then have "train_loop_torch_epochs L data_loader local_path [epoch] st w = (Inr st', w')"
    by simp
  from train_loop_torch_epochs_Inr[OF this] obtain recs :: "('v, 't) epoch_record list" where
    ks: "map fst recs = [epoch]" and
    t: "trace w' = trace w @ concat (map (record_trace local_path) recs)" and
    f: "recs \<noteq> [] \<longrightarrow> model_file w' local_path = [Pickle (snd (snd (snd (last recs))))]
          \<and> snd (snd (snd (last recs))) = state_dict (model st')"
    by (elim exE conjE) (rule that)
  from ks have ne: "recs \<noteq> []" and len: "length recs = 1" by auto
  show "length (filter is_torch_save (new_events w w')) = 1"
    using new_events_append[OF t] len by (simp add: filter_torch_save_record_trace)
  show "model_file w' local_path = [Pickle (state_dict (model st'))]"
    using f ne by simp
next
  assume r: "train_loop_torch L num_epochs bsz local_path w = (Inr (), wa)"
  then obtain recs :: "('v, 't) epoch_record list" where
    ks: "map fst recs = [0..<nat num_epochs]" and
    t: "trace wa = trace w @ concat (map (record_trace local_path) recs)" and
    "metrics_rows wa local_path = metrics_rows w local_path @ map record_row recs" and
    f: "recs \<noteq> [] \<longrightarrow> model_file wa local_path = [Pickle (snd (snd (snd (last recs))))]"
    by (rule train_loop_torch_records)
  from ks have len: "length recs = nat num_epochs"
    by (metis length_map length_upt minus_nat.diff_0)
  show "length (filter is_torch_save (new_events w wa)) = nat num_epochs"
    using new_events_append[OF t] len by (simp add: filter_torch_save_record_trace)
  show "\<exists>sd. model_file wa local_path = [Pickle sd]" if "0 < num_epochs"
    using f len that by auto
qed

theorem checkpoint_supersedes_witness:
  "\<not> isl (fst demo_epoch) \<and>
   length (filter is_torch_save (new_events demo_world (snd demo_epoch))) = 1 \<and>
   model_file (snd demo_epoch) ''run'' = [Pickle (state_dict (model (projr (fst demo_epoch))))] \<and>
   fst (train_loop_torch demo_lib 1 2 ''run'' demo_world) = Inr () \<and>
   length (filter is_torch_save
     (new_events demo_world (snd (train_loop_torch demo_lib 1 2 ''run'' demo_world)))) = 1 \<and>
   (\<exists>sd. model_file (snd (train_loop_torch demo_lib 1 2 ''run'' demo_world)) ''run'' = [Pickle sd])"
proof -
  let ?r = "train_loop_torch demo_lib 1 2 ''run'' demo_world"
  have r: "?r = (Inr (), snd ?r)" using demo_rerun_ok by (metis prod.collapse)
  have 1: "length (filter is_torch_save (new_events demo_world (snd ?r))) = 1 \<and>
           (\<exists>sd. model_file (snd ?r) ''run'' = [Pickle sd])"
    using checkpoint_supersedes[where L = demo_lib and num_epochs = 1 and bsz = 2
        and local_path = "''run''" and w = demo_world and wa = "snd ?r",
        THEN conjunct2, rule_format, OF r]
    by simp
  have 2: "length (filter is_torch_save (new_events demo_world (snd demo_epoch))) = 1 \<and>
           model_file (snd demo_epoch) ''run''
             = [Pickle (state_dict (model (projr (fst demo_epoch))))]"
    using checkpoint_supersedes[THEN conjunct1, rule_format, OF demo_epoch_run] .
  from 1 2 demo_rerun_ok demo_epoch_ok show ?thesis by blast
qed

text \<open>
  The write of a checkpoint (metrics row and weights) is not atomic: where \<open>model.pt\<close>
  cannot be written, the epoch raises after its metrics row has been appended, and
  the row stays without its weights.
\<close>

theorem checkpoint_write_not_atomic:
  "fst (train_loop_torch demo_lib 1 2 ''run'' blocked_world) = Inl RuntimeError \<and>
   metrics_rows blocked_world ''run'' = [] \<and>
   metrics_rows (snd (train_loop_torch demo_lib 1 2 ''run'' blocked_world)) ''run''
     = [Row [PyFloat 106, PyInt 0, PyFloat 110]] \<and>
   model_file (snd (train_loop_torch demo_lib 1 2 ''run'' blocked_world)) ''run'' = []"
  by code_simp

section \<open>The local batch size and the context of a worker\<close>

text \<open>
  C5: for a global batch size \<open>g\<close> and a world size \<open>w\<close> of at least 1, the batch size
  that a worker computes and builds its loader with is the floor of \<open>g / w\<close>; and the
  run of a worker depends on its context through the world rank and the world size
  only.
\<close>

theorem local_batch_size_floor_division:
  fixes wd :: "('v, 't) world"
  shows
  "(1 \<le> world_size ctx \<longrightarrow>
      floordiv g (world_size ctx) = Inr (g div world_size ctx) \<and>
      world_size ctx * (g div world_size ctx) \<le> g \<and>
      g < world_size ctx * (g div world_size ctx) + world_size ctx) \<and>
   (1 \<le> world_size ctx \<and> config ''global_batch_size'' = Some g \<and>
    train_loop_ray_train_setup L ctx config = Inr locals \<longrightarrow>
      local_batch_size locals = g div world_size ctx \<and>
      data_loader_ray_train L (g div world_size ctx) = Inr (locals_loader locals)) \<and>
   (world_rank ctx = world_rank ctx' \<and> world_size ctx = world_size ctx' \<longrightarrow>
      train_loop_ray_train L ctx config wd = train_loop_ray_train L ctx' config wd)"
proof (intro conjI impI)
  assume w: "1 \<le> world_size ctx"
  then show "floordiv g (world_size ctx) = Inr (g div world_size ctx)"
    by (simp add: floordiv_def)
  from w show "world_size ctx * (g div world_size ctx) \<le> g"
    by (rule floor_division_bounds)
  from w show "g < world_size ctx * (g div world_size ctx) + world_size ctx"
    by (rule floor_division_bounds)
next
  assume a: "1 \<le> world_size ctx \<and> config ''global_batch_size'' = Some g \<and>
    train_loop_ray_train_setup L ctx config = Inr locals"
  then have "local_batch_size locals = g div world_size ctx \<and>
      data_loader_ray_train L (g div world_size ctx) = Inr (locals_loader locals)"
    by (auto simp: train_loop_ray_train_setup_def and_then_eq_Inr config_get_def floordiv_def)
  then show "local_batch_size locals = g div world_size ctx"
    and "data_loader_ray_train L (g div world_size ctx) = Inr (locals_loader locals)"
    by simp_all
next
  assume c: "world_rank ctx = world_rank ctx' \<and> world_size ctx = world_size ctx'"
  then have "train_loop_ray_train_setup L ctx config = train_loop_ray_train_setup L ctx' config"
    by (simp add: train_loop_ray_train_setup_def)
  moreover from c have "world_rank ctx = world_rank ctx'" ..
  ultimately show "train_loop_ray_train L ctx config wd = train_loop_ray_train L ctx' config wd"
    unfolding train_loop_ray_train_def
    by (simp only: train_loop_ray_train_epochs_context[of ctx ctx'])
qed

theorem local_batch_size_floor_division_witness:
  "floordiv (- 7) 2 = Inr (- 4) \<and>
   \<not> isl (train_loop_ray_train_setup demo_lib (worker_context 1 2) demo_config) \<and>
   demo_config ''global_batch_size'' = Some 4 \<and>
   local_batch_size (projr (train_loop_ray_train_setup demo_lib (worker_context 1 2) demo_config)) = 2 \<and>
   world_rank (worker_context 1 2) = world_rank moved_worker_context \<and>
   world_size (worker_context 1 2) = world_size moved_worker_context \<and>
   local_rank (worker_context 1 2) \<noteq> local_rank moved_worker_context \<and>
   train_loop_ray_train demo_lib (worker_context 1 2) demo_config new_world
     = train_loop_ray_train demo_lib moved_worker_context demo_config new_world"
proof -
  let ?ctx = "worker_context 1 2"
  let ?s = "train_loop_ray_train_setup demo_lib ?ctx demo_config"
  have ws: "1 \<le> world_size ?ctx" and ws2: "world_size ?ctx = 2"
    by (simp_all add: worker_context_def)
  have cfg: "demo_config ''global_batch_size'' = Some 4"
    by (simp add: demo_config_def)
  have s: "?s = Inr (projr ?s)" using demo_setup_ok by simp
  have same: "world_rank ?ctx = world_rank moved_worker_context"
    "world_size ?ctx = world_size moved_worker_context"
    and differ: "local_rank ?ctx \<noteq> local_rank moved_worker_context"
    by (simp_all add: moved_worker_context_def worker_context_def)
  note th = local_batch_size_floor_division[where ctx = ?ctx and config = demo_config
      and L = demo_lib and locals = "projr ?s" and ctx' = moved_worker_context]
  have 1: "floordiv (- 7) 2 = Inr (- 4)"
    using th[where g = "- 7", THEN conjunct1, rule_format, OF ws] by (simp add: worker_context_def)
  have 2: "local_batch_size (projr ?s) = 2"
    using th[where g = 4, THEN conjunct2, THEN conjunct1, rule_format, OF conjI, OF ws conjI,
        OF cfg s]
    by (simp add: worker_context_def)
  have 3: "train_loop_ray_train demo_lib ?ctx demo_config new_world
     = train_loop_ray_train demo_lib moved_worker_context demo_config new_world"
    using th[where wd = new_world, THEN conjunct2, THEN conjunct2, rule_format, OF conjI, OF same] .
  from 1 2 3 demo_setup_ok cfg same differ show ?thesis by blast
qed

section \<open>Exceptions\<close>

text \<open>
  C6: \<open>train_loop_torch\<close> and the functions it calls have no handler. Whichever call
  of a library raises first, the run ends with that very exception, in the world as
  the actions before it have left it; nothing is retried, undone or translated.
  In the set-up (the world is untouched): moving the model to the GPU, building the
  optimizer, building the metric and moving it, loading the dataset, building the data
  loader. In batch \<open>j\<close> of epoch \<open>k\<close> (the world is as epoch \<open>k - 1\<close> left it): moving the
  batch, the forward pass, the loss, the backward pass, the optimizer step, the metric
  update. At the end of epoch \<open>k\<close>: computing the metric, making the directory (after the
  print and the reset), appending the metrics row, saving the weights (after the row has
  been appended).
\<close>

theorem exceptions_propagate:
  fixes w w1 w4 :: "('v, 't) world"
  shows
  "(to_cuda L (build_resnet18 L) = Inl e \<or>
    (\<exists>m. to_cuda L (build_resnet18 L) = Inr m \<and>
       (Adam L m = Inl e \<or>
        (\<exists>opt. Adam L m = Inr opt \<and>
           (Accuracy L = Inl e \<or>
            (\<exists>a0. Accuracy L = Inr a0 \<and>
               (metric_to L a0 ''cuda'' = Inl e \<or>
                (\<exists>a. metric_to L a0 ''cuda'' = Inr a \<and>
                   (MNIST L = Inl e \<or>
                    (\<exists>train_data. MNIST L = Inr train_data \<and>
                       DataLoader train_data bsz True True = Inl e))))))))) \<longrightarrow>
      train_loop_torch L n bsz local_path w = (Inl e, w)) \<and>
   (train_loop_torch_setup L bsz = Inr (st0, dl) \<and> k < nat n \<and>
    train_loop_torch_epochs L dl local_path [0..<k] st0 w = (Inr st1, w1) \<and>
    j < length (iter_batches (shuffle_keys L) dl k) \<and>
    train_loop_torch_batches L st1 (take j (iter_batches (shuffle_keys L) dl k)) = Inr st2 \<and>
    b = iter_batches (shuffle_keys L) dl k ! j \<and>
    (batch_to_cuda L (map fst b, map snd b) = Inl e \<or>
     (\<exists>images labels. batch_to_cuda L (map fst b, map snd b) = Inr (images, labels) \<and>
        (forward L (model st2) images = Inl e \<or>
         (\<exists>outputs m1. forward L (model st2) images = Inr (outputs, m1) \<and>
            (CrossEntropyLoss L outputs labels = Inl e \<or>
             (\<exists>l. CrossEntropyLoss L outputs labels = Inr l \<and>
                (backward L l (zero_grad L (optimizer st2) m1) = Inl e \<or>
                 (\<exists>m2. backward L l (zero_grad L (optimizer st2) m1) = Inr m2 \<and>
                    (step L (optimizer st2) m2 = Inl e \<or>
                     (\<exists>opt m3. step L (optimizer st2) m2 = Inr (opt, m3) \<and>
                        metric_update L (acc st2) outputs labels = Inl e)))))))))) \<longrightarrow>
      train_loop_torch L n bsz local_path w = (Inl e, w1)) \<and>
   (train_loop_torch_setup L bsz = Inr (st0, dl) \<and> k < nat n \<and>
    train_loop_torch_epochs L dl local_path [0..<k] st0 w = (Inr st1, w1) \<and>
    train_loop_torch_batches L st1 (iter_batches (shuffle_keys L) dl k) = Inr st2 \<and>
    loss st2 = Some l' \<and>
    (metric_compute L (acc st2) = Inl e \<and> w4 = w1 \<or>
     (\<exists>a metrics wp. metric_compute L (acc st2) = Inr a \<and>
        report_metrics_torch L l' a (int k) w1 = (metrics, wp) \<and>
        (mkdir local_path (log_event EvReset wp) = Inl e \<and> w4 = log_event EvReset wp \<or>
         (\<exists>w3. mkdir local_path (log_event EvReset wp) = Inr w3 \<and>
            (csv_append (os_path_join local_path ''metrics.csv'') (dict_values metrics) w3 = Inl e \<and>
             w4 = w3 \<or>
             (\<exists>w5. csv_append (os_path_join local_path ''metrics.csv'') (dict_values metrics) w3
                      = Inr w5 \<and>
                torch_save (state_dict (model st2)) (os_path_join local_path ''model.pt'') w5 = Inl e \<and>
                w4 = w5)))))) \<longrightarrow>
      train_loop_torch L n bsz local_path w = (Inl e, w4))"
  apply (intro conjI impI)
  subgoal by (drule train_loop_torch_setup_raises) (simp add: train_loop_torch_def)
  subgoal
    apply (elim conjE)
    apply (drule train_loop_torch_batch_raises)
    apply (simp only:)
    apply (erule (5) train_loop_torch_raises_in_batch)
    done
  subgoal
    apply (elim conjE)
    apply (drule (1) train_loop_torch_epoch_end_raises)
    apply (erule (4) train_loop_torch_raises_at_epoch_end)
    done
  done

theorem exceptions_propagate_witness:
  "to_cuda no_gpu_lib (build_resnet18 no_gpu_lib) = Inl (LibraryError ''no CUDA device'') \<and>
   train_loop_torch no_gpu_lib 2 2 ''run'' new_world
     = (Inl (LibraryError ''no CUDA device''), new_world) \<and>
   MNIST no_data_lib = Inl (LibraryError ''download failed'') \<and>
   train_loop_torch no_data_lib 2 2 ''run'' new_world
     = (Inl (LibraryError ''download failed''), new_world) \<and>
   forward oom_lib (model (projr oom_first_batch)) (map fst (oom_batches ! 1))
     = Inl (LibraryError ''CUDA out of memory'') \<and>
   train_loop_torch oom_lib 2 2 ''run'' new_world
     = (Inl (LibraryError ''CUDA out of memory''), snd oom_first_epoch) \<and>
   metrics_rows (snd oom_first_epoch) ''run'' = [Row [PyFloat 106, PyInt 0, PyFloat 110]] \<and>
   blocked_weights = Inl RuntimeError \<and>
   train_loop_torch demo_lib 1 2 ''run'' blocked_world = (Inl RuntimeError, projr blocked_row) \<and>
   metrics_rows (projr blocked_row) ''run'' = [Row [PyFloat 106, PyInt 0, PyFloat 110]]"
proof -
  let ?gpu = "LibraryError ''no CUDA device''"
  let ?net = "LibraryError ''download failed''"
  let ?oom = "LibraryError ''CUDA out of memory''"
  have 1: "train_loop_torch no_gpu_lib 2 2 ''run'' new_world = (Inl ?gpu, new_world)"
    using exceptions_propagate[where L = no_gpu_lib and e = ?gpu and bsz = 2 and n = 2
        and local_path = "''run''" and w = new_world, THEN conjunct1, rule_format,
        OF disjI1, OF no_gpu_to_cuda] .
  have d1: "to_cuda no_data_lib (build_resnet18 no_data_lib)
              = Inr (projr (to_cuda no_data_lib (build_resnet18 no_data_lib)))"
    and d2: "Adam no_data_lib (projr (to_cuda no_data_lib (build_resnet18 no_data_lib)))
              = Inr (projr (Adam no_data_lib (projr (to_cuda no_data_lib (build_resnet18 no_data_lib)))))"
    and d3: "Accuracy no_data_lib = Inr (projr (Accuracy no_data_lib))"
    and d4: "metric_to no_data_lib (projr (Accuracy no_data_lib)) ''cuda''
              = Inr (projr (metric_to no_data_lib (projr (Accuracy no_data_lib)) ''cuda''))"
    using no_data_steps(1-4) by simp_all
  have 2: "train_loop_torch no_data_lib 2 2 ''run'' new_world = (Inl ?net, new_world)"
    using exceptions_propagate[where L = no_data_lib and e = ?net and bsz = 2 and n = 2
        and local_path = "''run''" and w = new_world, THEN conjunct1, rule_format]
      d1 d2 d3 d4 no_data_steps(5) by blast
  have s: "train_loop_torch_setup oom_lib 2 = Inr (fst oom_setup, snd oom_setup)"
    using oom_run_steps(1) by (simp add: oom_setup_def)
  have e0: "train_loop_torch_epochs oom_lib (snd oom_setup) ''run'' [0..<1] (fst oom_setup) new_world
              = (Inr (projr (fst oom_first_epoch)), snd oom_first_epoch)"
    using oom_run_steps(2) unfolding oom_first_epoch_def by (metis prod.collapse sum.collapse(2))
  have j: "1 < length (iter_batches (shuffle_keys oom_lib) (snd oom_setup) 1)"
    using oom_run_steps(3) by (simp add: oom_batches_def)
  have b0: "train_loop_torch_batches oom_lib (projr (fst oom_first_epoch))
              (take 1 (iter_batches (shuffle_keys oom_lib) (snd oom_setup) 1))
              = Inr (projr oom_first_batch)"
    using oom_run_steps(4) by (simp add: oom_first_batch_def oom_batches_def)
  have b: "oom_batches ! 1 = iter_batches (shuffle_keys oom_lib) (snd oom_setup) 1 ! 1"
    by (simp add: oom_batches_def)
  have k: "(1::nat) < nat 2" by simp
  have 3: "train_loop_torch oom_lib 2 2 ''run'' new_world = (Inl ?oom, snd oom_first_epoch)"
    using exceptions_propagate[where L = oom_lib and e = ?oom and bsz = 2 and n = 2
        and local_path = "''run''" and w = new_world and k = 1 and j = 1
        and ?st0.0 = "fst oom_setup" and dl = "snd oom_setup"
        and ?st1.0 = "projr (fst oom_first_epoch)" and ?w1.0 = "snd oom_first_epoch"
        and ?st2.0 = "projr oom_first_batch" and b = "oom_batches ! 1",
        THEN conjunct2, THEN conjunct1, rule_format]
      s k e0 j b0 b oom_run_steps(5,6) by blast
  have ds: "train_loop_torch_setup demo_lib 2 = Inr (fst demo_setup, snd demo_setup)"
    using blocked_run_steps(1) by (simp add: demo_setup_def)
  have k0: "(0::nat) < nat 1" by simp
  have p0: "train_loop_torch_epochs demo_lib (snd demo_setup) ''run'' [0..<0] (fst demo_setup)
              blocked_world = (Inr (fst demo_setup), blocked_world)"
    by simp
  have bb: "train_loop_torch_batches demo_lib (fst demo_setup)
              (iter_batches (shuffle_keys demo_lib) (snd demo_setup) 0) = Inr (projr blocked_batches)"
    using blocked_run_steps(2) by (simp add: blocked_batches_def)
  have rp: "report_metrics_torch demo_lib 106 110 (int 0) blocked_world
              = (fst blocked_reported, snd blocked_reported)"
    by (simp add: blocked_reported_def)
  have md: "mkdir ''run'' (log_event EvReset (snd blocked_reported)) = Inr (projr blocked_dir)"
    using blocked_run_steps(5) by (simp add: blocked_dir_def)
  have cs: "csv_append (os_path_join ''run'' ''metrics.csv'') (dict_values (fst blocked_reported))
              (projr blocked_dir) = Inr (projr blocked_row)"
    using blocked_row_steps(1) by (simp add: blocked_row_def)
  have ts: "torch_save (state_dict (model (projr blocked_batches)))
              (os_path_join ''run'' ''model.pt'') (projr blocked_row) = Inl RuntimeError"
    using blocked_row_steps(2,3) unfolding blocked_weights_def by (metis sum.collapse(1))
  have 4: "train_loop_torch demo_lib 1 2 ''run'' blocked_world = (Inl RuntimeError, projr blocked_row)"
    using exceptions_propagate[where L = demo_lib and e = RuntimeError and bsz = 2 and n = 1
        and local_path = "''run''" and w = blocked_world and k = 0
        and ?st0.0 = "fst demo_setup" and dl = "snd demo_setup"
        and ?st1.0 = "fst demo_setup" and ?w1.0 = blocked_world
        and ?st2.0 = "projr blocked_batches" and l' = 106 and ?w4.0 = "projr blocked_row",
        THEN conjunct2, THEN conjunct2, rule_format]
      ds k0 p0 bb blocked_run_steps(3,4) rp md cs ts by blast
  from 1 2 3 4 no_gpu_to_cuda no_data_steps(5) oom_run_steps(6,7) blocked_row_steps(4) ts
  show ?thesis unfolding blocked_weights_def by blast
qed

section \<open>Saving and reloading a state dict\<close>

text \<open>
  C7: a state dict that fits the architecture of \<open>build_resnet18\<close> (as that of the
  trained model does), once saved to \<open>model.pt\<close>, is reloaded by the reload cell into a
  freshly built model without error; the reloaded model takes 1-channel input, has 10
  outputs, and its state dict is the saved one. (The names of the library's
  parameters are taken to be distinct.)
\<close>

theorem checkpoint_round_trip:
  fixes w w' :: "('v, 't) world"
  assumes "distinct (map fst (state_dict (build_resnet18 L)))"
    and "architecture (state_dict m) = architecture (state_dict (build_resnet18 L))"
    and "torch_save (state_dict m) (os_path_join ckpt_dir ''model.pt'') w = Inr w'"
  shows "\<exists>loaded_model. reload_checkpoint L ckpt_dir w' = Inr loaded_model \<and>
           in_channels (conv1 loaded_model) = 1 \<and>
           shape (weight (conv1 loaded_model)) = [64, 1, 7, 7] \<and>
           out_features (fc loaded_model) = 10 \<and>
           shape (lin_weight (fc loaded_model)) = [10, 512] \<and>
           state_dict loaded_model = state_dict m \<and>
           \<not> training loaded_model"
proof -
  from load_state_dict_same_architecture[OF assms(2,1)] obtain m' where
    m': "load_state_dict (build_resnet18 L) (state_dict m) = Inr m'" ..
  have r: "reload_checkpoint L ckpt_dir w' = Inr (m'\<lparr>training := False\<rparr>)"
    using torch_save_load[OF assms(3)] m' by (simp add: reload_checkpoint_def)
  have sd: "state_dict m' = state_dict m"
    using load_state_dict_Inr(1)[OF m'] copy_from_same_architecture[OF assms(2,1)] by simp
  have "state_dict (m'\<lparr>training := False\<rparr>) = state_dict m'"
    by (simp add: state_dict_def)
  with r sd load_state_dict_Inr(2-5)[OF m'] show ?thesis
    by (simp add: build_resnet18_fields)
qed

theorem checkpoint_round_trip_witness:
  "distinct (map fst (state_dict (build_resnet18 demo_lib))) \<and>
   architecture (state_dict demo_trained) = architecture (state_dict (build_resnet18 demo_lib)) \<and>
   \<not> isl demo_saved \<and>
   data (weight (conv1 demo_trained)) = 200 \<and>
   data (weight (conv1 (build_resnet18 demo_lib))) = 0 \<and>
   (\<exists>loaded_model. reload_checkpoint demo_lib ''run'' (projr demo_saved) = Inr loaded_model \<and>
      in_channels (conv1 loaded_model) = 1 \<and>
      shape (weight (conv1 loaded_model)) = [64, 1, 7, 7] \<and>
      out_features (fc loaded_model) = 10 \<and>
      shape (lin_weight (fc loaded_model)) = [10, 512] \<and>
      state_dict loaded_model = state_dict demo_trained \<and>
      \<not> training loaded_model)"
proof -
  have s: "torch_save (state_dict demo_trained) (os_path_join ''run'' ''model.pt'') demo_world
             = Inr (projr demo_saved)"
    using demo_saved_ok unfolding demo_saved_def by simp
  from checkpoint_round_trip[OF demo_names_distinct demo_trained_architecture s]
    demo_names_distinct demo_trained_architecture demo_saved_ok demo_trained_weight
  show ?thesis by blast
qed

section \<open>Loss and accuracy of an epoch\<close>

text \<open>
  C8: in the metrics record of an epoch, the loss is the loss of the last batch of that
  epoch alone, computed from the model as it was before that batch's optimizer step;
  the accuracy is computed from the metric after it has been updated with the outputs
  and labels of every batch of the epoch, in order, and the metric is reset after it.
  In a run that returns, every epoch has a last batch.
\<close>

theorem loss_of_last_batch_accuracy_of_all:
  fixes w w' wa wb :: "('v, 't) world"
  shows
  "(train_loop_torch_epoch L dl local_path k st w = (Inr st', w') \<and>
    iter_batches (shuffle_keys L) dl k = bs @ [b] \<longrightarrow>
      (\<exists>st1 outputs labels l a_end a.
         train_loop_torch_batches L st bs = Inr st1 \<and>
         train_loop_torch_forward L st1 b = Inr (outputs, labels, l) \<and>
         length (epoch_outputs L st (bs @ [b])) = length (bs @ [b]) \<and>
         metric_updates L (acc st) (epoch_outputs L st (bs @ [b])) = Inr a_end \<and>
         metric_compute L a_end = Inr a \<and>
         metrics_rows w' local_path =
           metrics_rows w local_path @ [Row [PyFloat (item L l), PyInt (int k), PyFloat (item L a)]] \<and>
         acc st' = metric_reset L a_end)) \<and>
   (train_loop_torch L num_epochs bsz local_path wa = (Inr (), wb) \<and> 0 < num_epochs \<and>
    data_loader_torch L bsz = Inr dl \<longrightarrow>
      (\<forall>k. iter_batches (shuffle_keys L) dl k \<noteq> []))"
proof (intro conjI impI)
  assume a: "train_loop_torch_epoch L dl local_path k st w = (Inr st', w') \<and>
    iter_batches (shuffle_keys L) dl k = bs @ [b]"
  then obtain st2 where
    all: "train_loop_torch_batches L st (bs @ [b]) = Inr st2" and
    ee: "train_loop_torch_epoch_end L local_path k st2 w = (Inr st', w')"
    by (auto simp: train_loop_torch_epoch_def split: sum.splits)
  from all obtain st1 where
    pre: "train_loop_torch_batches L st bs = Inr st1" and
    last: "train_loop_torch_batch L st1 b = Inr st2"
    by (auto simp: train_loop_torch_batches_append split: sum.splits)
  from last obtain outputs labels l where
    f: "train_loop_torch_forward L st1 b = Inr (outputs, labels, l)" and
    l: "loss st2 = Some l"
    by (rule train_loop_torch_batch_Inr)
  from ee obtain l' a where
    l': "loss st2 = Some l'" and
    c: "metric_compute L (acc st2) = Inr a" and
    st': "st' = st2\<lparr>acc := metric_reset L (acc st2)\<rparr>" and
    r: "metrics_rows w' local_path =
          metrics_rows w local_path @ [torch_epoch_row k (item L l') (item L a)]"
    by (rule train_loop_torch_epoch_end_Inr)
  from l l' have "l' = l" by simp
  with pre f train_loop_torch_batches_outputs[OF all] c r st'
  show "\<exists>st1 outputs labels l a_end a.
         train_loop_torch_batches L st bs = Inr st1 \<and>
         train_loop_torch_forward L st1 b = Inr (outputs, labels, l) \<and>
         length (epoch_outputs L st (bs @ [b])) = length (bs @ [b]) \<and>
         metric_updates L (acc st) (epoch_outputs L st (bs @ [b])) = Inr a_end \<and>
         metric_compute L a_end = Inr a \<and>
         metrics_rows w' local_path =
           metrics_rows w local_path @ [Row [PyFloat (item L l), PyInt (int k), PyFloat (item L a)]] \<and>
         acc st' = metric_reset L a_end"
    by (auto simp: torch_epoch_row_def)
next
  assume a: "train_loop_torch L num_epochs bsz local_path wa = (Inr (), wb) \<and> 0 < num_epochs \<and>
    data_loader_torch L bsz = Inr dl"
  then have first: "iter_batches (shuffle_keys L) dl 0 \<noteq> []"
    using train_loop_torch_first_epoch_has_batches by blast
  from a have count: "length (iter_batches (shuffle_keys L) dl k)
                        = length (dataset dl) div batch_size dl" for k
    using data_loader_torch_Inr[of L bsz dl]
    by (simp add: iter_batches_def batch_sampler_drop_last_length)
  show "\<forall>k. iter_batches (shuffle_keys L) dl k \<noteq> []"
  proof
    fix k
    from count[of k] count[of 0] first show "iter_batches (shuffle_keys L) dl k \<noteq> []"
      by (metis length_0_conv)
  qed
qed

theorem loss_of_last_batch_accuracy_of_all_witness:
  "\<not> isl (fst demo_epoch) \<and>
   iter_batches (shuffle_keys demo_lib) demo_loader 7 = [[(1, 1), (2, 0)]] @ [[(3, 1), (4, 0)]] \<and>
   (\<exists>st1 outputs labels l a_end a.
      train_loop_torch_batches demo_lib demo_state [[(1, 1), (2, 0)]] = Inr st1 \<and>
      train_loop_torch_forward demo_lib st1 [(3, 1), (4, 0)] = Inr (outputs, labels, l) \<and>
      length (epoch_outputs demo_lib demo_state ([[(1, 1), (2, 0)]] @ [[(3, 1), (4, 0)]]))
        = length ([[(1, 1), (2, 0)]] @ [[(3, 1), (4::nat, 0::nat)]]) \<and>
      metric_updates demo_lib (acc demo_state)
        (epoch_outputs demo_lib demo_state ([[(1, 1), (2, 0)]] @ [[(3, 1), (4, 0)]])) = Inr a_end \<and>
      metric_compute demo_lib a_end = Inr a \<and>
      metrics_rows (snd demo_epoch) ''run'' =
        metrics_rows demo_world ''run'' @
          [Row [PyFloat (item demo_lib l), PyInt (int 7), PyFloat (item demo_lib a)]] \<and>
      acc (projr (fst demo_epoch)) = metric_reset demo_lib a_end) \<and>
   metrics_rows (snd demo_epoch) ''run''
     = metrics_rows demo_world ''run'' @ [Row [PyFloat 106, PyInt 7, PyFloat 110]] \<and>
   fst (train_loop_torch demo_lib 2 2 ''run'' new_world) = Inr () \<and>
   iter_batches (shuffle_keys demo_lib) (projr (data_loader_torch demo_lib 2)) 3 \<noteq> []"
proof -
  let ?dl = "projr (data_loader_torch demo_lib 2)"
  have dl: "data_loader_torch demo_lib 2 = Inr ?dl" using demo_loader_ok(1) by simp
  note a = loss_of_last_batch_accuracy_of_all[where L = demo_lib and dl = demo_loader
      and local_path = "''run''" and k = 7 and st = demo_state and w = demo_world
      and st' = "projr (fst demo_epoch)" and w' = "snd demo_epoch"
      and bs = "[[(1, 1), (2, 0)]]" and b = "[(3, 1), (4, 0)]",
      THEN conjunct1, rule_format, OF conjI, OF demo_epoch_run demo_epoch_batches]
  note b = loss_of_last_batch_accuracy_of_all[where L = demo_lib and num_epochs = 2 and bsz = 2
      and local_path = "''run''" and wa = new_world and wb = demo_world and dl = ?dl,
      THEN conjunct2, rule_format, OF conjI, OF demo_run conjI, OF _ dl, simplified, rule_format,
      of 3]
  from a b demo_epoch_ok demo_epoch_batches demo_epoch_values(3) demo_run_ok
  show ?thesis by blast
qed

section \<open>Batches with drop_last\<close>

text \<open>
  C9: the loader of \<open>data_loader_torch\<close> has \<open>drop_last\<close> set. In every pass each batch
  has exactly \<open>batch_size\<close> samples, there are \<open>length dataset div batch_size\<close> batches,
  and they hold the first \<open>batch_size * (length dataset div batch_size)\<close> samples of the
  pass's order, so that the rest is skipped. With fewer samples than \<open>batch_size\<close> a
  pass has no batch, and a run of at least one epoch whose set-up succeeds raises
  \<open>UnboundLocalError\<close> at the first report of metrics, before anything is written.
\<close>

theorem drop_last_batches:
  fixes w :: "('v, 't) world"
  assumes "data_loader_torch L bsz = Inr dl"
  shows "drop_last dl \<and> 0 < bsz \<and> batch_size dl = nat bsz \<and>
    (\<forall>k. \<forall>b \<in> set (iter_batches keys dl k). length b = batch_size dl) \<and>
    (\<forall>k. length (iter_batches keys dl k) = length (dataset dl) div batch_size dl) \<and>
    (\<forall>k. concat (iter_batches keys dl k) =
          map (\<lambda>i. dataset dl ! i)
            (take (batch_size dl * (length (dataset dl) div batch_size dl)) (sampler keys dl k))) \<and>
    (length (dataset dl) < batch_size dl \<longrightarrow> (\<forall>k. iter_batches keys dl k = [])) \<and>
    (length (dataset dl) < batch_size dl \<and> 0 < num_epochs \<and>
     train_loop_torch_setup L bsz = Inr (st, dl) \<longrightarrow>
       train_loop_torch L num_epochs bsz local_path w = (Inl UnboundLocalError, w))"
proof -
  note dl = data_loader_torch_Inr[OF assms]
  from dl have pos: "0 < batch_size dl" by simp
  have full: "length b = batch_size dl" if "b \<in> set (iter_batches keys dl k)" for b k
    using that dl(5) by (auto simp: iter_batches_def dest: batch_sampler_drop_last_full)
  have count: "length (iter_batches keys dl k) = length (dataset dl) div batch_size dl" for k
    using dl(5) pos by (simp add: iter_batches_def batch_sampler_drop_last_length)
  have used: "concat (iter_batches keys dl k) =
          map (\<lambda>i. dataset dl ! i)
            (take (batch_size dl * (length (dataset dl) div batch_size dl)) (sampler keys dl k))"
    for k
    using dl(5) pos batch_sampler_drop_last_concat[of "batch_size dl" "sampler keys dl k"]
    by (simp add: iter_batches_def map_concat[symmetric])
  have none: "iter_batches keys dl k = []" if "length (dataset dl) < batch_size dl" for k
    using count[of k] that by simp
  have fails: "train_loop_torch L num_epochs bsz local_path w = (Inl UnboundLocalError, w)"
    if few: "length (dataset dl) < batch_size dl" and n: "0 < num_epochs"
      and s: "train_loop_torch_setup L bsz = Inr (st, dl)"
  proof -
    have "length (iter_batches (shuffle_keys L) dl 0) = length (dataset dl) div batch_size dl"
      using dl(5) pos by (simp add: iter_batches_def batch_sampler_drop_last_length)
    with few have "iter_batches (shuffle_keys L) dl 0 = []" by simp
    then have "train_loop_torch_epoch L dl local_path 0 st w = (Inl UnboundLocalError, w)"
      using train_loop_torch_setup_Inr(1)[OF s]
      by (simp add: train_loop_torch_epoch_def train_loop_torch_epoch_end_def)
    then show ?thesis
      using s py_range_pos[OF n] by (simp add: train_loop_torch_def)
  qed
  from dl(2,3,5) full count used none fails show ?thesis by blast
qed

theorem drop_last_batches_witness:
  "\<not> isl (data_loader_torch demo_lib 2) \<and>
   length (iter_batches (shuffle_keys demo_lib) (projr (data_loader_torch demo_lib 2)) 1) = 2 \<and>
   length (concat (iter_batches (shuffle_keys demo_lib) (projr (data_loader_torch demo_lib 2)) 1)) = 4 \<and>
   \<not> isl (train_loop_torch_setup demo_lib 6) \<and>
   length (dataset (projr (data_loader_torch demo_lib 6)))
     < batch_size (projr (data_loader_torch demo_lib 6)) \<and>
   iter_batches (shuffle_keys demo_lib) (projr (data_loader_torch demo_lib 6)) 0 = [] \<and>
   train_loop_torch demo_lib 2 6 ''run'' new_world = (Inl UnboundLocalError, new_world)"
proof -
  let ?dl = "projr (data_loader_torch demo_lib 2)"
  let ?ds = "projr (data_loader_torch demo_lib 6)"
  let ?st = "fst (projr (train_loop_torch_setup demo_lib 6))"
  have dl: "data_loader_torch demo_lib 2 = Inr ?dl" using demo_loader_ok(1) by simp
  have ds: "data_loader_torch demo_lib 6 = Inr ?ds" using demo_small_setup_ok(2) by simp
  have st: "train_loop_torch_setup demo_lib 6 = Inr (?st, ?ds)"
    using demo_small_setup_ok(1,3) by (metis prod.collapse sum.collapse(2))
  have few: "length (dataset ?ds) < batch_size ?ds"
    using demo_small_setup_ok(4,5) by simp
  note big = drop_last_batches[OF dl, where keys = "shuffle_keys demo_lib"]
  note small = drop_last_batches[OF ds, where keys = "shuffle_keys demo_lib" and num_epochs = 2
      and st = ?st and local_path = "''run''" and w = new_world]
  from big have 1: "length (iter_batches (shuffle_keys demo_lib) ?dl 1) = 2"
    using demo_loader_ok(2,3) by simp
  from big have "concat (iter_batches (shuffle_keys demo_lib) ?dl 1) =
          map (\<lambda>i. dataset ?dl ! i)
            (take (batch_size ?dl * (length (dataset ?dl) div batch_size ?dl))
               (sampler (shuffle_keys demo_lib) ?dl 1))"
    by blast
  then have 2: "length (concat (iter_batches (shuffle_keys demo_lib) ?dl 1)) = 4"
    using demo_loader_ok(2,3) by (simp add: length_sampler del: length_concat)
  from small few have 3: "iter_batches (shuffle_keys demo_lib) ?ds 0 = []"
    by blast
  from small few st have 4:
    "train_loop_torch demo_lib 2 6 ''run'' new_world = (Inl UnboundLocalError, new_world)"
    by simp
  from 1 2 3 4 few demo_loader_ok(1) demo_small_setup_ok(1) show ?thesis by blast
qed

section \<open>Appending to the metrics log\<close>

text \<open>
  C10: \<open>metrics.csv\<close> is opened for appending and the run directory is made with
  \<open>exist_ok\<close>. So a checkpoint write that returns has left the rows that were there as
  they were and added exactly one row after them; making a directory that is already
  there succeeds and touches no row; and a second run on the same directory adds its
  rows after those of the first.
\<close>

theorem metrics_log_append_only:
  fixes w w' w1 w2 wa wb :: "('v, 't) world"
  shows
  "(save_checkpoint_and_metrics_torch metrics m local_path w = (Inr (), w') \<longrightarrow>
      metrics_rows w' local_path = metrics_rows w local_path @ [Row (dict_values metrics)]) \<and>
   (is_directory (files w local_path) \<longrightarrow>
      (\<exists>w1. mkdir local_path w = Inr w1 \<and> metrics_rows w1 local_path = metrics_rows w local_path)) \<and>
   (train_loop_torch L n bsz local_path w = (Inr (), wa) \<and>
    train_loop_torch L' n' bsz' local_path wa = (Inr (), wb) \<longrightarrow>
      (\<exists>rows rows'. length rows = nat n \<and> length rows' = nat n' \<and>
         metrics_rows wb local_path = metrics_rows w local_path @ rows @ rows'))"
proof (intro conjI impI)
  assume "save_checkpoint_and_metrics_torch metrics m local_path w = (Inr (), w')"
  then show "metrics_rows w' local_path = metrics_rows w local_path @ [Row (dict_values metrics)]"
    by (rule save_checkpoint_and_metrics_torch_Inr(2))
next
  assume "is_directory (files w local_path)"
  from mkdir_exist_ok[OF this]
  show "\<exists>w1. mkdir local_path w = Inr w1 \<and> metrics_rows w1 local_path = metrics_rows w local_path"
    unfolding metrics_rows_def by blast
next
  assume runs: "train_loop_torch L n bsz local_path w = (Inr (), wa) \<and>
    train_loop_torch L' n' bsz' local_path wa = (Inr (), wb)"
  from runs obtain recs :: "('v, 't) epoch_record list" where
    k1: "map fst recs = [0..<nat n]" and
    r1: "metrics_rows wa local_path = metrics_rows w local_path @ map record_row recs"
    by (blast elim: train_loop_torch_records)
  from runs obtain recs' :: "('v, 't) epoch_record list" where
    k2: "map fst recs' = [0..<nat n']" and
    r2: "metrics_rows wb local_path = metrics_rows wa local_path @ map record_row recs'"
    by (blast elim: train_loop_torch_records)
  from k1 have "length (map record_row recs :: ('v, 't) chunk list) = nat n"
    by (metis length_map length_upt minus_nat.diff_0)
  moreover from k2 have "length (map record_row recs' :: ('v, 't) chunk list) = nat n'"
    by (metis length_map length_upt minus_nat.diff_0)
  ultimately show "\<exists>rows rows'. length rows = nat n \<and> length rows' = nat n' \<and>
         metrics_rows wb local_path = metrics_rows w local_path @ rows @ rows'"
    using r1 r2 by (metis append.assoc)
qed

theorem metrics_log_append_only_witness:
  "fst (save_checkpoint_and_metrics_torch [(''loss'', PyFloat 7)] (build_resnet18 demo_lib) ''run''
         demo_world) = Inr () \<and>
   metrics_rows (snd (save_checkpoint_and_metrics_torch [(''loss'', PyFloat 7)]
         (build_resnet18 demo_lib) ''run'' demo_world)) ''run''
     = metrics_rows demo_world ''run'' @ [Row [PyFloat 7]] \<and>
   is_directory (files demo_world ''run'') \<and>
   (\<exists>w1. mkdir ''run'' demo_world = Inr w1 \<and> metrics_rows w1 ''run'' = metrics_rows demo_world ''run'') \<and>
   fst (train_loop_torch demo_lib 2 2 ''run'' new_world) = Inr () \<and>
   fst (train_loop_torch demo_lib 1 2 ''run'' demo_world) = Inr () \<and>
   (\<exists>rows rows'. length rows = 2 \<and> length rows' = 1 \<and>
      metrics_rows (snd (train_loop_torch demo_lib 1 2 ''run'' demo_world)) ''run''
        = metrics_rows new_world ''run'' @ rows @ rows')"
proof -
  let ?ms = "[(''loss'', PyFloat (7::int))]"
  let ?s = "save_checkpoint_and_metrics_torch ?ms (build_resnet18 demo_lib) ''run'' demo_world"
  let ?r = "train_loop_torch demo_lib 1 2 ''run'' demo_world"
  have s: "?s = (Inr (), snd ?s)" using demo_save_ok by (metis prod.collapse)
  have r: "?r = (Inr (), snd ?r)" using demo_rerun_ok by (metis prod.collapse)
  have 1: "metrics_rows (snd ?s) ''run'' = metrics_rows demo_world ''run'' @ [Row [PyFloat 7]]"
    using metrics_log_append_only[where metrics = ?ms and w = demo_world and w' = "snd ?s"
        and local_path = "''run''" and m = "build_resnet18 demo_lib", THEN conjunct1, rule_format, OF s]
    by (simp add: dict_values_def)
  have 2:
    "\<exists>w1. mkdir ''run'' demo_world = Inr w1 \<and> metrics_rows w1 ''run'' = metrics_rows demo_world ''run''"
    using metrics_log_append_only[where w = demo_world and local_path = "''run''",
        THEN conjunct2, THEN conjunct1, rule_format, OF demo_world_dir] .
  have 3: "\<exists>rows rows'. length rows = 2 \<and> length rows' = 1 \<and>
      metrics_rows (snd ?r) ''run'' = metrics_rows new_world ''run'' @ rows @ rows'"
    using metrics_log_append_only[where w = new_world and local_path = "''run''" and L = demo_lib
        and n = 2 and bsz = 2 and wa = demo_world and L' = demo_lib and n' = 1 and bsz' = 2
        and wb = "snd ?r", THEN conjunct2, THEN conjunct2, rule_format, OF conjI, OF demo_run r]
    by simp
  from 1 2 3 demo_save_ok demo_world_dir demo_run_ok demo_rerun_ok show ?thesis by blast
qed

end
